theory Spec2Isabelle
  imports Complex_Main "HOL-Library.Word"
begin

section \<open>Cable monitor: the position and current pipeline of calculations.c\<close>

text \<open>
  The development embeds the functions of \<^verbatim>\<open>Core/Src/calculations.c\<close> that run once per
  acquisition: \<^verbatim>\<open>calculate_pos\<close>, \<^verbatim>\<open>calculate_FFT\<close>, \<^verbatim>\<open>averaging_FFT_semples\<close>,
  \<^verbatim>\<open>distance_LUT\<close>, \<^verbatim>\<open>calculate_current\<close> and \<^verbatim>\<open>check_display_bounderies\<close>.

  Conventions of the embedding.
  \<^item> The file-level variables of calculations.c are the fields of the record \<open>state\<close>; every
    function takes the state and returns the updated one.
  \<^item> \<^verbatim>\<open>int\<close> and \<^verbatim>\<open>int32_t\<close> variables are HOL integers holding the machine value; the slots of
    the averaging arrays are \<^verbatim>\<open>uint32_t\<close> and are 32-bit words, and the accumulation
    \<^verbatim>\<open>int32_t += uint32_t\<close> wraps as the machine does. The sums and products of the law of
    cosines are 32-bit too: each operation wraps around (\<open>i32\<close>), as the two's complement
    arithmetic of the target does.
  \<^item> \<^verbatim>\<open>double\<close> and \<^verbatim>\<open>float\<close> values are real numbers. The arithmetic of
    calculate\_current rounds as IEEE 754 does: every double operation to 53 bits and the
    store into the float \<^verbatim>\<open>current\<close> to 24 bits, to nearest with ties to even
    (\<open>round_binary\<close>; exponent range not modelled). The functions of math.h (\<^verbatim>\<open>acos\<close>,
    \<^verbatim>\<open>sin\<close>, \<^verbatim>\<open>cos\<close>, \<^verbatim>\<open>atan2\<close>), whose rounding the C standard leaves open, are the
    functions of the real numbers, and so is the quotient that feeds \<^verbatim>\<open>acos\<close>: a value
    that truncates to an integer in calculate\_pos can differ by one from the code's where
    the exact result is an integer. The one place where a non-finite value arises, the
    quotient of the law of cosines with a zero denominator, is modelled by the type
    \<open>cdouble\<close> with the IEEE 754 results of a division by zero.
  \<^item> An access outside an averaging array and a division by zero in integer arithmetic
    are undefined in C: the functions return \<open>None\<close> there.
  \<^item> The samples, the FFT and the magnitude of the 50 Hz bin come from measuring.c and the
    CMSIS library, which are outside calculations.c: the four magnitudes already cast to
    \<^verbatim>\<open>uint32_t\<close> are an argument (\<open>tones\<close>), and so is the flag \<^verbatim>\<open>MEAS_data_ready\<close>.
    \<^verbatim>\<open>split_Array\<close> and \<^verbatim>\<open>clear_Buffer\<close> only touch the sample buffers that feed the FFT.
  \<^item> The two calibration tables are included from csv files that are not part of the
    sources: they are a parameter (\<open>tables\<close>), total functions from the index to the entry.
\<close>

subsection \<open>Constants of error\_code.h and calculations.c\<close>

definition FFT_NO_SIGNAL :: int where [simp]: "FFT_NO_SIGNAL = 1111"
definition CALC_OUTOF_Y_RANGE :: int where [simp]: "CALC_OUTOF_Y_RANGE = 2222"
definition CALC_OUTOF_X_RANGE :: int where [simp]: "CALC_OUTOF_X_RANGE = 2333"
definition CALC_OUTOF_ANGLE_RANGE :: int where [simp]: "CALC_OUTOF_ANGLE_RANGE = 2444"
definition CURR_OUTOF_Y_RANGE :: int where [simp]: "CURR_OUTOF_Y_RANGE = 4444"
definition CURR_OUTOF_Angle_RANGE :: int where [simp]: "CURR_OUTOF_Angle_RANGE = 4555"

definition FFT_AVG_NUMS :: int where [simp]: "FFT_AVG_NUMS = 3"
definition PAD_SPACING :: int where [simp]: "PAD_SPACING = 50"
definition RAD_TO_DEGREE :: real where "RAD_TO_DEGREE = 57.295779513"
definition MAX_Y_DISTANCE :: int where [simp]: "MAX_Y_DISTANCE = 200"
definition MAX_X_DISTANCE :: int where [simp]: "MAX_X_DISTANCE = 100"
definition CURRENT_FACTOR :: real where "CURRENT_FACTOR = 0.357"

definition LPAD_Max :: int where [simp]: "LPAD_Max = 1458"
definition LPAD_Min :: int where [simp]: "LPAD_Min = 200"
definition RPAD_Max :: int where [simp]: "RPAD_Max = 1466"
definition RPAD_Min :: int where [simp]: "RPAD_Min = 200"

subsection \<open>The variables of calculations.c\<close>

record state =
  LPAD_FFT_avg_array :: "nat \<Rightarrow> 32 word"
  RPAD_FFT_avg_array :: "nat \<Rightarrow> 32 word"
  LHALL_FFT_avg_array :: "nat \<Rightarrow> 32 word"
  RHALL_FFT_avg_array :: "nat \<Rightarrow> 32 word"
  LPAD_FFT_distance :: int
  RPAD_FFT_distance :: int
  LHALL_FFT_voltage :: int
  RHALL_FFT_voltage :: int
  X_Pos :: int
  Y_Pos :: int
  Gamma :: real
  current :: real
  avg_counter :: int
  num_of_samples :: int

text \<open>Static storage is zero at startup.\<close>

definition startup :: state where
  "startup = \<lparr>LPAD_FFT_avg_array = (\<lambda>_. 0), RPAD_FFT_avg_array = (\<lambda>_. 0),
     LHALL_FFT_avg_array = (\<lambda>_. 0), RHALL_FFT_avg_array = (\<lambda>_. 0),
     LPAD_FFT_distance = 0, RPAD_FFT_distance = 0,
     LHALL_FFT_voltage = 0, RHALL_FFT_voltage = 0,
     X_Pos = 0, Y_Pos = 0, Gamma = 0, current = 0,
     avg_counter = 0, num_of_samples = 0\<rparr>"

record tables =
  LPAD_LUT :: "nat \<Rightarrow> int"
  RPAD_LUT :: "nat \<Rightarrow> int"

text \<open>The magnitudes of the 50 Hz bin of the left pad, right pad, left Hall and right Hall.\<close>

type_synonym tones = "32 word \<times> 32 word \<times> 32 word \<times> 32 word"

subsection \<open>C arithmetic\<close>

text \<open>Integer division truncates towards zero.\<close>

definition c_div :: "int \<Rightarrow> int \<Rightarrow> int" where
  "c_div a b = sgn a * sgn b * (\<bar>a\<bar> div \<bar>b\<bar>)"

text \<open>The value of a 32-bit signed result: the integer modulo \<open>2 ^ 32\<close>, read as signed.\<close>

definition i32 :: "int \<Rightarrow> int" where
  "i32 x = sint (word_of_int x :: 32 word)"

text \<open>
  Rounding to a binary format of precision p, to nearest with ties to even: 53 bits for a
  double, 24 for a float.
\<close>

definition round_even :: "real \<Rightarrow> int" where
  "round_even q =
     (let f = \<lfloor>q\<rfloor> in
      if q - of_int f < 1 / 2 then f
      else if q - of_int f > 1 / 2 then f + 1
      else if even f then f else f + 1)"

definition round_binary :: "nat \<Rightarrow> real \<Rightarrow> real" where
  "round_binary p x =
     (if x = 0 then 0
      else (let e = \<lfloor>log 2 \<bar>x\<bar>\<rfloor>; u = 2 powr (of_int e - real (p - 1))
            in of_int (round_even (x / u)) * u))"

definition to_double :: "real \<Rightarrow> real" where
  "to_double = round_binary 53"

definition to_float :: "real \<Rightarrow> real" where
  "to_float = round_binary 24"

text \<open>The conversion of a double to \<^verbatim>\<open>int\<close> drops the fraction.\<close>

definition c_trunc :: "real \<Rightarrow> int" where
  "c_trunc x = (if 0 \<le> x then \<lfloor>x\<rfloor> else \<lceil>x\<rceil>)"

text \<open>
  The result of \<^verbatim>\<open>(double)num / den\<close> for integers: a zero denominator gives an infinity
  of the sign of the numerator, or a NaN when the numerator is zero too.
\<close>

datatype cdouble = Fin real | PInf | NInf | NaN

definition ddiv :: "int \<Rightarrow> int \<Rightarrow> cdouble" where
  "ddiv num den =
     (if den = 0 then (if num > 0 then PInf else if num < 0 then NInf else NaN)
      else Fin (real_of_int num / real_of_int den))"

text \<open>Comparisons with a finite bound: every comparison with a NaN is false.\<close>

fun d_le :: "cdouble \<Rightarrow> real \<Rightarrow> bool" where
  "d_le (Fin x) b = (x \<le> b)"
| "d_le PInf b = False"
| "d_le NInf b = True"
| "d_le NaN b = False"

fun d_gt :: "cdouble \<Rightarrow> real \<Rightarrow> bool" where
  "d_gt (Fin x) b = (x > b)"
| "d_gt PInf b = True"
| "d_gt NInf b = False"
| "d_gt NaN b = False"

fun is_finite :: "cdouble \<Rightarrow> bool" where
  "is_finite (Fin x) = True"
| "is_finite PInf = False"
| "is_finite NInf = False"
| "is_finite NaN = False"

text \<open>\<^verbatim>\<open>acos\<close>; calculate\_pos calls it on finite arguments of (-1, 1] only.\<close>

fun d_acos :: "cdouble \<Rightarrow> real" where
  "d_acos (Fin x) = arccos x"
| "d_acos PInf = 0"
| "d_acos NInf = 0"
| "d_acos NaN = 0"

definition atan2 :: "real \<Rightarrow> real \<Rightarrow> real" where
  "atan2 y x =
     (if x > 0 then arctan (y / x)
      else if x < 0 \<and> y \<ge> 0 then arctan (y / x) + pi
      else if x < 0 \<and> y < 0 then arctan (y / x) - pi
      else if y > 0 then pi / 2
      else if y < 0 then - (pi / 2)
      else 0)"

subsection \<open>distance\_LUT\<close>

text \<open>
  The branch that distance\_LUT runs once for each pad, with the pad's table and bounds.
\<close>

definition pad_distance :: "(nat \<Rightarrow> int) \<Rightarrow> int \<Rightarrow> int \<Rightarrow> int \<Rightarrow> int" where
  "pad_distance lut PAD_Min PAD_Max r =
     (if r > PAD_Min \<and> r < PAD_Max then lut (nat (r - PAD_Min))
      else if r > PAD_Max then 0
      else FFT_NO_SIGNAL)"

definition distance_LUT :: "tables \<Rightarrow> state \<Rightarrow> state" where
  "distance_LUT T s =
     s\<lparr>LPAD_FFT_distance := pad_distance (LPAD_LUT T) LPAD_Min LPAD_Max (LPAD_FFT_distance s),
       RPAD_FFT_distance := pad_distance (RPAD_LUT T) RPAD_Min RPAD_Max (RPAD_FFT_distance s)\<rparr>"

subsection \<open>averaging\_FFT\_semples and calculate\_FFT\<close>

text \<open>
  The loop \<^verbatim>\<open>for (i = 0; i < n; i++) acc += array[i]\<close> with an \<^verbatim>\<open>int32_t\<close> accumulator
  that starts at 0 and \<^verbatim>\<open>uint32_t\<close> slots: the addition is done modulo \<open>2 ^ 32\<close> and read
  back as a signed value.
\<close>

fun sum_slots :: "(nat \<Rightarrow> 32 word) \<Rightarrow> nat \<Rightarrow> int" where
  "sum_slots arr 0 = 0"
| "sum_slots arr (Suc i) = sint (word_of_int (sum_slots arr i) + arr i)"

definition averaging_FFT_semples :: "tables \<Rightarrow> state \<Rightarrow> state option" where
  "averaging_FFT_semples T s =
     (if avg_counter s = num_of_samples s - 1 then
        (if num_of_samples s > FFT_AVG_NUMS \<or> num_of_samples s = 0 then None
         else
           (let n = nat (num_of_samples s) in
            Some (distance_LUT T
              (s\<lparr>LPAD_FFT_distance := c_div (sum_slots (LPAD_FFT_avg_array s) n) (num_of_samples s),
                 RPAD_FFT_distance := c_div (sum_slots (RPAD_FFT_avg_array s) n) (num_of_samples s),
                 LHALL_FFT_voltage := c_div (sum_slots (LHALL_FFT_avg_array s) n) (num_of_samples s),
                 RHALL_FFT_voltage := c_div (sum_slots (RHALL_FFT_avg_array s) n) (num_of_samples s),
                 avg_counter := 0\<rparr>))))
      else Some (s\<lparr>avg_counter := avg_counter s + 1\<rparr>))"

definition calculate_FFT :: "tables \<Rightarrow> tones \<Rightarrow> state \<Rightarrow> state option" where
  "calculate_FFT T t s =
     (case t of (lpad, rpad, lhall, rhall) \<Rightarrow>
        if 0 \<le> avg_counter s \<and> avg_counter s < FFT_AVG_NUMS then
          averaging_FFT_semples T
            (s\<lparr>LPAD_FFT_avg_array := (LPAD_FFT_avg_array s)(nat (avg_counter s) := lpad),
               RPAD_FFT_avg_array := (RPAD_FFT_avg_array s)(nat (avg_counter s) := rpad),
               LHALL_FFT_avg_array := (LHALL_FFT_avg_array s)(nat (avg_counter s) := lhall),
               RHALL_FFT_avg_array := (RHALL_FFT_avg_array s)(nat (avg_counter s) := rhall)\<rparr>)
        else None)"

subsection \<open>calculate\_current and check\_display\_bounderies\<close>

text \<open>
  The expression \<^verbatim>\<open>(voltage*CURRENT_FACTOR*Y_Pos)/1000\<close> stored into the float: the literal
  0.357 is a double, the two products and the quotient are double operations from left to
  right (the integers convert exactly), and the assignment rounds to a float.
\<close>

definition hall_current :: "int \<Rightarrow> int \<Rightarrow> real" where
  "hall_current voltage y =
     to_float
       (to_double
          (to_double (to_double (real_of_int voltage * to_double CURRENT_FACTOR) * real_of_int y)
           / 1000))"

definition calculate_current :: "state \<Rightarrow> state" where
  "calculate_current s =
     (if Y_Pos s > 15 \<and> Y_Pos s < 25 then
        (if Gamma s < 15 \<and> Gamma s > - 15 then
           (if RHALL_FFT_voltage s > LHALL_FFT_voltage s
            then s\<lparr>current := hall_current (RHALL_FFT_voltage s) (Y_Pos s)\<rparr>
            else s\<lparr>current := hall_current (LHALL_FFT_voltage s) (Y_Pos s)\<rparr>)
         else s\<lparr>current := real_of_int CURR_OUTOF_Angle_RANGE\<rparr>)
      else s\<lparr>current := real_of_int CURR_OUTOF_Y_RANGE\<rparr>)"

definition check_display_bounderies :: "state \<Rightarrow> state" where
  "check_display_bounderies s =
     (let s1 = (if \<bar>real_of_int (X_Pos s)\<bar> > real_of_int MAX_X_DISTANCE
                then s\<lparr>X_Pos := CALC_OUTOF_X_RANGE\<rparr> else s)
      in if Y_Pos s1 > MAX_Y_DISTANCE then s1\<lparr>Y_Pos := CALC_OUTOF_Y_RANGE\<rparr> else s1)"

subsection \<open>calculate\_pos\<close>

text \<open>
  The two quotients of the law of cosines: the numerator and the denominator are 32-bit
  integer expressions, evaluated from left to right, and the division is a double one.
\<close>

definition cos_beta_of :: "int \<Rightarrow> int \<Rightarrow> cdouble" where
  "cos_beta_of L R =
     ddiv (i32 (i32 (i32 (L * L) + i32 (PAD_SPACING * PAD_SPACING)) - i32 (R * R)))
       (i32 (i32 (2 * L) * PAD_SPACING))"

definition cos_alpha_of :: "int \<Rightarrow> int \<Rightarrow> cdouble" where
  "cos_alpha_of L R =
     ddiv (i32 (i32 (i32 (R * R) - i32 (L * L)) + i32 (PAD_SPACING * PAD_SPACING)))
       (i32 (i32 (2 * R) * PAD_SPACING))"

text \<open>The test \<^verbatim>\<open>cos_alpha <= 1 && cos_beta <= 1 && cos_alpha > -1 && cos_beta > -1\<close>.\<close>

definition acos_range_check :: "cdouble \<Rightarrow> cdouble \<Rightarrow> bool" where
  "acos_range_check cos_alpha cos_beta =
     (d_le cos_alpha 1 \<and> d_le cos_beta 1 \<and> d_gt cos_alpha (- 1) \<and> d_gt cos_beta (- 1))"

text \<open>
  The body of calculate\_pos under the range check, in two steps. \<open>locate\<close> is the three
  cases, the angle, the signs and the conversion to degrees; \<open>triangulate\<close> is the whole
  body, which goes on with calculate\_current and check\_display\_bounderies.
  \<^verbatim>\<open>PAD_SPACING/2\<close> is an integer division.
\<close>

definition locate :: "real \<Rightarrow> real \<Rightarrow> state \<Rightarrow> state" where
  "locate alpha beta s =
     (let L = real_of_int (LPAD_FFT_distance s);
          R = real_of_int (RPAD_FFT_distance s);
          half = real_of_int (c_div PAD_SPACING 2);
          s1 = (if alpha < pi / 2 \<and> beta < pi / 2 then
                  s\<lparr>X_Pos := c_trunc \<bar>cos alpha * R - half\<bar>,
                    Y_Pos := c_trunc (sin alpha * R)\<rparr>
                else if alpha \<ge> pi / 2 \<and> beta < pi / 2 then
                  s\<lparr>X_Pos := c_trunc (cos (pi - alpha) * R + half),
                    Y_Pos := c_trunc (sin (pi - alpha) * R)\<rparr>
                else if alpha < pi / 2 \<and> beta \<ge> pi / 2 then
                  s\<lparr>X_Pos := c_trunc (cos (pi - beta) * L + half),
                    Y_Pos := c_trunc (sin (pi - beta) * L)\<rparr>
                else s);
          s2 = s1\<lparr>Gamma := atan2 (real_of_int (Y_Pos s1)) (real_of_int (X_Pos s1))\<rparr>;
          s3 = (if alpha < beta
                then s2\<lparr>Gamma := pi / 2 - Gamma s2, X_Pos := - X_Pos s2\<rparr>
                else s2\<lparr>Gamma := Gamma s2 - pi / 2\<rparr>)
      in s3\<lparr>Gamma := Gamma s3 * RAD_TO_DEGREE\<rparr>)"

definition triangulate :: "real \<Rightarrow> real \<Rightarrow> state \<Rightarrow> state" where
  "triangulate alpha beta s = check_display_bounderies (calculate_current (locate alpha beta s))"

text \<open>The part of calculate\_pos after clear\_Buffer.\<close>

definition position_stage :: "state \<Rightarrow> state" where
  "position_stage s =
     (if LPAD_FFT_distance s \<noteq> FFT_NO_SIGNAL \<or> RPAD_FFT_distance s \<noteq> FFT_NO_SIGNAL then
        (let cos_beta = cos_beta_of (LPAD_FFT_distance s) (RPAD_FFT_distance s);
             cos_alpha = cos_alpha_of (LPAD_FFT_distance s) (RPAD_FFT_distance s)
         in if acos_range_check cos_alpha cos_beta
            then triangulate (d_acos cos_alpha) (d_acos cos_beta) s
            else s)
      else s)"

definition calculate_pos :: "tables \<Rightarrow> int \<Rightarrow> bool \<Rightarrow> tones \<Rightarrow> state \<Rightarrow> state option" where
  "calculate_pos T fft_avg_num MEAS_data_ready t s =
     (let s0 = s\<lparr>num_of_samples := fft_avg_num\<rparr> in
      if MEAS_data_ready then
        (case calculate_FFT T t
                (s0\<lparr>X_Pos := CALC_OUTOF_X_RANGE, Y_Pos := CALC_OUTOF_Y_RANGE,
                    Gamma := real_of_int CALC_OUTOF_ANGLE_RANGE\<rparr>) of
           None \<Rightarrow> None
         | Some s1 \<Rightarrow> Some (position_stage s1))
      else Some s0)"

text \<open>
  The branch that calculate\_pos takes after clear\_Buffer, read off the same conditions:
  the guard on the two distances, the range check, and the case analysis on the angles.
\<close>

datatype pos_path = Skipped | Domain_fail | Case1 | Case2 | Case3 | Fallthrough

definition pos_path :: "int \<Rightarrow> int \<Rightarrow> pos_path" where
  "pos_path L R =
     (if L \<noteq> FFT_NO_SIGNAL \<or> R \<noteq> FFT_NO_SIGNAL then
        (let cos_beta = cos_beta_of L R; cos_alpha = cos_alpha_of L R
         in if acos_range_check cos_alpha cos_beta then
              (let alpha = d_acos cos_alpha; beta = d_acos cos_beta
               in if alpha < pi / 2 \<and> beta < pi / 2 then Case1
                  else if alpha \<ge> pi / 2 \<and> beta < pi / 2 then Case2
                  else if alpha < pi / 2 \<and> beta \<ge> pi / 2 then Case3
                  else Fallthrough)
            else Domain_fail)
      else Skipped)"

text \<open>The main loop calls calculate\_pos with one window size, once per pass.\<close>

fun run :: "tables \<Rightarrow> int \<Rightarrow> (bool \<times> tones) list \<Rightarrow> state \<Rightarrow> state option" where
  "run T W [] s = Some s"
| "run T W ((ready, t) # cs) s =
     (case calculate_pos T W ready t s of None \<Rightarrow> None | Some s' \<Rightarrow> run T W cs s')"

subsection \<open>Names for the steps of one call\<close>

text \<open>
  The following definitions name the successive state updates of one call of
  calculate\_pos, so that the lemmas on its two branches can be stated: the assignments
  before split\_Array, the four array writes of calculate\_FFT, and the sums and
  divisions of averaging\_FFT\_semples.
\<close>

definition begin_cycle :: "int \<Rightarrow> state \<Rightarrow> state" where
  "begin_cycle W s =
     s\<lparr>num_of_samples := W\<rparr>\<lparr>X_Pos := CALC_OUTOF_X_RANGE, Y_Pos := CALC_OUTOF_Y_RANGE,
        Gamma := real_of_int CALC_OUTOF_ANGLE_RANGE\<rparr>"

definition store_tones :: "tones \<Rightarrow> state \<Rightarrow> state" where
  "store_tones t s =
     (case t of (lpad, rpad, lhall, rhall) \<Rightarrow>
        s\<lparr>LPAD_FFT_avg_array := (LPAD_FFT_avg_array s)(nat (avg_counter s) := lpad),
          RPAD_FFT_avg_array := (RPAD_FFT_avg_array s)(nat (avg_counter s) := rpad),
          LHALL_FFT_avg_array := (LHALL_FFT_avg_array s)(nat (avg_counter s) := lhall),
          RHALL_FFT_avg_array := (RHALL_FFT_avg_array s)(nat (avg_counter s) := rhall)\<rparr>)"

definition average_slots :: "state \<Rightarrow> state" where
  "average_slots s =
     s\<lparr>LPAD_FFT_distance :=
         c_div (sum_slots (LPAD_FFT_avg_array s) (nat (num_of_samples s))) (num_of_samples s),
       RPAD_FFT_distance :=
         c_div (sum_slots (RPAD_FFT_avg_array s) (nat (num_of_samples s))) (num_of_samples s),
       LHALL_FFT_voltage :=
         c_div (sum_slots (LHALL_FFT_avg_array s) (nat (num_of_samples s))) (num_of_samples s),
       RHALL_FFT_voltage :=
         c_div (sum_slots (RHALL_FFT_avg_array s) (nat (num_of_samples s))) (num_of_samples s),
       avg_counter := 0\<rparr>"

text \<open>The position estimate that the accessors get\_X\_Pos, get\_Y\_Pos and get\_angle read.\<close>

definition estimate :: "state \<Rightarrow> int \<times> int \<times> real" where
  "estimate s = (X_Pos s, Y_Pos s, Gamma s)"

text \<open>The range check of calculate\_pos on the distances of a state.\<close>

definition range_check_of :: "state \<Rightarrow> bool" where
  "range_check_of s =
     acos_range_check (cos_alpha_of (LPAD_FFT_distance s) (RPAD_FFT_distance s))
       (cos_beta_of (LPAD_FFT_distance s) (RPAD_FFT_distance s))"

text \<open>The branch of calculate\_pos on the distances of a state.\<close>

definition path_of :: "state \<Rightarrow> pos_path" where
  "path_of s = pos_path (LPAD_FFT_distance s) (RPAD_FFT_distance s)"

text \<open>
  Two states agree on everything the body of calculate\_pos reads after clear\_Buffer.
\<close>

definition same_inputs :: "state \<Rightarrow> state \<Rightarrow> bool" where
  "same_inputs s s' =
     (LPAD_FFT_distance s = LPAD_FFT_distance s' \<and> RPAD_FFT_distance s = RPAD_FFT_distance s'
      \<and> LHALL_FFT_voltage s = LHALL_FFT_voltage s' \<and> RHALL_FFT_voltage s = RHALL_FFT_voltage s'
      \<and> X_Pos s = X_Pos s' \<and> Y_Pos s = Y_Pos s' \<and> Gamma s = Gamma s')"

text \<open>
  A sample calibration for evaluating the pipeline at concrete inputs (the csv tables are
  not part of the sources): the distance falls from 129 mm at the weakest magnitude.
\<close>

definition sample_lut :: "nat \<Rightarrow> int" where
  "sample_lut i = (1300 - int i) div 10"

definition sample_tables :: tables where
  "sample_tables = \<lparr>LPAD_LUT = sample_lut, RPAD_LUT = sample_lut\<rparr>"

text \<open>
  A calibration with negative entries, which the element type \<^verbatim>\<open>int32_t\<close> of the tables
  admits.
\<close>

definition negative_tables :: tables where
  "negative_tables = \<lparr>LPAD_LUT = (\<lambda>_. - 50), RPAD_LUT = (\<lambda>_. - 50)\<rparr>"

text \<open>
  The state after one call of calculate\_pos(1) at startup, with the sample calibration,
  both pads at magnitude 1200 (30 mm) and the Hall sensors at 100 and 50. The current is
  the float nearest to 0.5712.
\<close>

definition published_state :: state where
  "published_state =
     \<lparr>LPAD_FFT_avg_array = (\<lambda>_. 0)(0 := 1200), RPAD_FFT_avg_array = (\<lambda>_. 0)(0 := 1200),
      LHALL_FFT_avg_array = (\<lambda>_. 0)(0 := 100), RHALL_FFT_avg_array = (\<lambda>_. 0)(0 := 50),
      LPAD_FFT_distance = 30, RPAD_FFT_distance = 30,
      LHALL_FFT_voltage = 100, RHALL_FFT_voltage = 50,
      X_Pos = 0, Y_Pos = 16, Gamma = 0, current = 4791573 / 8388608,
      avg_counter = 0, num_of_samples = 1\<rparr>"

text \<open>The four readings held at one index of the averaging arrays.\<close>

definition slots :: "state \<Rightarrow> nat \<Rightarrow> tones" where
  "slots s i = (LPAD_FFT_avg_array s i, RPAD_FFT_avg_array s i,
                LHALL_FFT_avg_array s i, RHALL_FFT_avg_array s i)"

text \<open>
  The average as the specification words it: the sum of the first W slots, as natural
  numbers, divided by W and rounded down.
\<close>

definition spec_average :: "(nat \<Rightarrow> 32 word) \<Rightarrow> int \<Rightarrow> int" where
  "spec_average arr W = int ((\<Sum>i<nat W. unat (arr i)) div nat W)"

text \<open>
  What a call that fills the window of W readings leaves behind: the Hall averages, the
  pad averages sent through the calibration, and the position stage run on the result.
\<close>

definition published_average :: "tables \<Rightarrow> int \<Rightarrow> state \<Rightarrow> bool" where
  "published_average T W s' =
     (LHALL_FFT_voltage s' = c_div (sum_slots (LHALL_FFT_avg_array s') (nat W)) W
      \<and> RHALL_FFT_voltage s' = c_div (sum_slots (RHALL_FFT_avg_array s') (nat W)) W
      \<and> LPAD_FFT_distance s' =
          pad_distance (LPAD_LUT T) LPAD_Min LPAD_Max
            (c_div (sum_slots (LPAD_FFT_avg_array s') (nat W)) W)
      \<and> RPAD_FFT_distance s' =
          pad_distance (RPAD_LUT T) RPAD_Min RPAD_Max
            (c_div (sum_slots (RPAD_FFT_avg_array s') (nat W)) W)
      \<and> (\<exists>s1. s' = position_stage (distance_LUT T (average_slots s1))
            \<and> estimate s1 =
                (CALC_OUTOF_X_RANGE, CALC_OUTOF_Y_RANGE, real_of_int CALC_OUTOF_ANGLE_RANGE)))"

section \<open>Properties\<close>

subsection \<open>32-bit results and rounding\<close>

lemma i32_small: "- (2 ^ 31) \<le> x \<Longrightarrow> x < 2 ^ 31 \<Longrightarrow> i32 x = x"
  by (simp add: i32_def sint_sbintrunc' signed_take_bit_int_eq_self)

lemma i32_range: "- 2147483648 \<le> x \<Longrightarrow> x \<le> 2147483647 \<Longrightarrow> i32 x = x"
  by (rule i32_small) simp_all

lemmas cos_defs = cos_alpha_of_def cos_beta_of_def ddiv_def i32_def

lemma round_even_error: "\<bar>of_int (round_even q) - q\<bar> \<le> 1 / 2"
  unfolding round_even_def Let_def by (auto; linarith)

lemma round_binary_exponent:
  assumes "2 powr of_int e \<le> \<bar>x\<bar>" "\<bar>x\<bar> < 2 powr (of_int e + 1)"
  shows "round_binary p x =
    of_int (round_even (x / 2 powr (of_int e - real (p - 1)))) * 2 powr (of_int e - real (p - 1))"
proof -
  have pos: "0 < \<bar>x\<bar>" using assms(1) by (smt (verit) powr_gt_zero)
  then have x0: "x \<noteq> 0" by auto
  have "of_int e \<le> log 2 \<bar>x\<bar>" using assms(1) pos by (simp add: le_log_iff)
  moreover have "log 2 \<bar>x\<bar> < of_int e + 1" using assms(2) pos by (simp add: log_less_iff)
  ultimately have "\<lfloor>log 2 \<bar>x\<bar>\<rfloor> = e" by (intro floor_unique) auto
  then show ?thesis using x0 by (simp add: round_binary_def Let_def)
qed

text \<open>Rounding to p bits changes a value by at most its \<open>2 ^ p\<close>-th part.\<close>

lemma round_binary_error:
  assumes "1 \<le> p"
  shows "\<bar>round_binary p x - x\<bar> \<le> \<bar>x\<bar> / 2 ^ p"
proof (cases "x = 0")
  case True
  then show ?thesis by (simp add: round_binary_def)
next
  case False
  define e where "e = \<lfloor>log 2 \<bar>x\<bar>\<rfloor>"
  define u where "u = 2 powr (of_int e - real (p - 1))"
  have u: "0 < u" by (simp add: u_def)
  have r: "round_binary p x = of_int (round_even (x / u)) * u"
    using False by (simp add: round_binary_def Let_def e_def u_def)
  have "of_int (round_even (x / u)) * u - x = (of_int (round_even (x / u)) - x / u) * u"
    using u by (simp add: field_simps)
  then have "\<bar>of_int (round_even (x / u)) * u - x\<bar> = \<bar>of_int (round_even (x / u)) - x / u\<bar> * u"
    using u by (simp only: abs_mult abs_of_pos)
  also have "\<dots> \<le> 1 / 2 * u"
    using round_even_error [of "x / u"] u by (intro mult_right_mono) auto
  finally have 1: "\<bar>round_binary p x - x\<bar> \<le> u / 2" by (simp add: r)
  have "2 powr of_int e \<le> 2 powr (log 2 \<bar>x\<bar>)"
    unfolding e_def by (intro powr_mono) auto
  then have 2: "2 powr of_int e \<le> \<bar>x\<bar>" using False by simp
  have "u / 2 = 2 powr of_int e / 2 ^ p"
  proof -
    have "real (p - 1) = real p - 1" using assms by (simp add: of_nat_diff)
    then have "of_int e - real (p - 1) = of_int e + (1 - real p)" by simp
    then have "u = 2 powr of_int e * 2 powr (1 - real p)"
      unfolding u_def by (simp only: powr_add)
    also have "2 powr (1 - real p) = 2 / 2 ^ p"
      by (simp add: powr_diff powr_realpow)
    finally show ?thesis by simp
  qed
  also have "\<dots> \<le> \<bar>x\<bar> / 2 ^ p" using 2 by (intro divide_right_mono) auto
  finally show ?thesis using 1 by linarith
qed

text \<open>The double of the literal 0.357.\<close>

lemma to_double_CURRENT_FACTOR: "to_double CURRENT_FACTOR = 1607785066971267 / 4503599627370496"
proof -
  have "to_double 0.357 =
      of_int (round_even (0.357 / 2 powr (of_int (- 2) - real (53 - 1))))
        * 2 powr (of_int (- 2) - real (53 - 1))"
    unfolding to_double_def by (rule round_binary_exponent) (simp_all add: powr_minus)
  also have "2 powr (of_int (- 2) - real (53 - 1)) = 1 / 2 ^ 54"
    by (simp add: powr_minus powr_numeral divide_simps flip: powr_numeral)
  finally show ?thesis by (simp add: round_even_def Let_def CURRENT_FACTOR_def)
qed


lemma round_binary_value:
  assumes "2 powr of_int e \<le> \<bar>x\<bar>" "\<bar>x\<bar> < 2 powr (of_int e + 1)"
    and "2 powr (of_int e - real (p - 1)) = u"
    and "round_even (x / u) = k"
  shows "round_binary p x = of_int k * u"
  using round_binary_exponent [OF assms(1,2), of p] assms(3,4) by simp

lemma powr_int_values:
  "2 powr (of_int 5 - real (53 - 1)) = 1 / 2 ^ 47"
  "2 powr (of_int 9 - real (53 - 1)) = 1 / 2 ^ 43"
  "2 powr (of_int (- 1) - real (53 - 1)) = 1 / 2 ^ 53"
  "2 powr (of_int (- 1) - real (24 - 1)) = 1 / 2 ^ 24"
  by (simp_all add: powr_minus powr_numeral divide_simps flip: powr_numeral)

text \<open>The current for a Hall average of 100 at 16 mm and at 20 mm, operation by operation.\<close>

lemma hall_product_100:
  "to_double (real_of_int 100 * to_double CURRENT_FACTOR) = 5024328334285209 / 140737488355328"
proof -
  have "to_double (real_of_int 100 * (1607785066971267 / 4503599627370496))
      = 5024328334285209 / 140737488355328"
    unfolding to_double_def
    by (rule round_binary_value [where e = 5 and k = 5024328334285209, OF _ _ powr_int_values(1),
          THEN trans])
      (simp_all add: round_even_def Let_def)
  then show ?thesis by (simp only: to_double_CURRENT_FACTOR)
qed

lemma hall_current_100_16: "hall_current 100 16 = 4791573 / 8388608"
proof -
  have 2: "to_double (5024328334285209 / 140737488355328 * real_of_int 16)
      = 5024328334285209 / 8796093022208"
    unfolding to_double_def
    by (rule round_binary_value [where e = 9 and k = 5024328334285209, OF _ _ powr_int_values(2),
          THEN trans])
      (simp_all add: round_even_def Let_def)
  have 3: "to_double (5024328334285209 / 8796093022208 / 1000)
      = 2572456107154027 / 4503599627370496"
    unfolding to_double_def
    by (rule round_binary_value [where e = "- 1" and k = 5144912214308054,
          OF _ _ powr_int_values(3), THEN trans])
      (simp_all add: round_even_def Let_def powr_minus)
  have 4: "to_float (2572456107154027 / 4503599627370496) = 4791573 / 8388608"
    unfolding to_float_def
    by (rule round_binary_value [where e = "- 1" and k = 9583146,
          OF _ _ powr_int_values(4), THEN trans])
      (simp_all add: round_even_def Let_def powr_minus)
  show ?thesis
    unfolding hall_current_def hall_product_100 2 3 4 ..
qed

lemma hall_current_100_20: "hall_current 100 20 = 2994733 / 4194304"
proof -
  have 2: "to_double (5024328334285209 / 140737488355328 * real_of_int 20)
      = 6280410417856511 / 8796093022208"
    unfolding to_double_def
    by (rule round_binary_value [where e = 9 and k = 6280410417856511, OF _ _ powr_int_values(2),
          THEN trans])
      (simp_all add: round_even_def Let_def)
  have 3: "to_double (6280410417856511 / 8796093022208 / 1000)
      = 6431140267885067 / 9007199254740992"
    unfolding to_double_def
    by (rule round_binary_value [where e = "- 1" and k = 6431140267885067,
          OF _ _ powr_int_values(3), THEN trans])
      (simp_all add: round_even_def Let_def powr_minus)
  have 4: "to_float (6431140267885067 / 9007199254740992) = 2994733 / 4194304"
    unfolding to_float_def
    by (rule round_binary_value [where e = "- 1" and k = 11978932,
          OF _ _ powr_int_values(4), THEN trans])
      (simp_all add: round_even_def Let_def powr_minus)
  show ?thesis
    unfolding hall_current_def hall_product_100 2 3 4 ..
qed

text \<open>
  One more rounding on a value that already has a relative error, and the relative error of
  the whole expression of \<open>hall_current\<close> against the product over the reals.
\<close>

lemma rel_step:
  assumes "1 \<le> p" "\<bar>x' - x\<bar> \<le> e * \<bar>x\<bar>"
  shows "\<bar>round_binary p x' - x\<bar> \<le> (e + (1 + e) / 2 ^ p) * \<bar>x\<bar>"
proof -
  have "\<bar>x'\<bar> \<le> \<bar>x\<bar> + \<bar>x' - x\<bar>" by linarith
  also have "\<dots> \<le> (1 + e) * \<bar>x\<bar>" using assms(2) by (simp add: algebra_simps)
  finally have "\<bar>x'\<bar> / 2 ^ p \<le> (1 + e) * \<bar>x\<bar> / 2 ^ p"
    by (intro divide_right_mono) auto
  with round_binary_error [OF assms(1), of x']
  have "\<bar>round_binary p x' - x'\<bar> \<le> (1 + e) * \<bar>x\<bar> / 2 ^ p" by linarith
  moreover have "\<bar>round_binary p x' - x\<bar> \<le> \<bar>round_binary p x' - x'\<bar> + \<bar>x' - x\<bar>" by linarith
  ultimately have "\<bar>round_binary p x' - x\<bar> \<le> (1 + e) * \<bar>x\<bar> / 2 ^ p + e * \<bar>x\<bar>"
    using assms(2) by linarith
  then show ?thesis by (simp add: algebra_simps)
qed

lemma rel_scale:
  fixes k :: real
  assumes "\<bar>x' - x\<bar> \<le> e * \<bar>x\<bar>"
  shows "\<bar>k * x' - k * x\<bar> \<le> e * \<bar>k * x\<bar>"
    and "\<bar>x' * k - x * k\<bar> \<le> e * \<bar>x * k\<bar>"
    and "\<bar>x' / k - x / k\<bar> \<le> e * \<bar>x / k\<bar>"
proof -
  have "k * x' - k * x = k * (x' - x)" by (simp add: algebra_simps)
  then have "\<bar>k * x' - k * x\<bar> = \<bar>k\<bar> * \<bar>x' - x\<bar>" by (simp only: abs_mult)
  also have "\<dots> \<le> \<bar>k\<bar> * (e * \<bar>x\<bar>)" using assms by (intro mult_left_mono) auto
  finally show 1: "\<bar>k * x' - k * x\<bar> \<le> e * \<bar>k * x\<bar>" by (simp add: abs_mult ac_simps)
  then show "\<bar>x' * k - x * k\<bar> \<le> e * \<bar>x * k\<bar>" by (simp add: mult.commute)
  have "x' / k - x / k = (x' - x) / k" by (simp add: diff_divide_distrib)
  then have "\<bar>x' / k - x / k\<bar> = \<bar>x' - x\<bar> / \<bar>k\<bar>" by (simp only: abs_divide)
  also have "\<dots> \<le> e * \<bar>x\<bar> / \<bar>k\<bar>" using assms by (intro divide_right_mono) auto
  finally show "\<bar>x' / k - x / k\<bar> \<le> e * \<bar>x / k\<bar>" by (simp add: abs_divide)
qed

lemma hall_current_error:
  "\<bar>hall_current v y - real_of_int v * CURRENT_FACTOR * real_of_int y / 1000\<bar>
     \<le> \<bar>real_of_int v * CURRENT_FACTOR * real_of_int y / 1000\<bar> / 2 ^ 23"
proof -
  define e0 :: real where "e0 = 0 + (1 + 0) / 2 ^ 53"
  define e1 where "e1 = e0 + (1 + e0) / 2 ^ 53"
  define e2 where "e2 = e1 + (1 + e1) / 2 ^ 53"
  define e3 where "e3 = e2 + (1 + e2) / 2 ^ 53"
  define e4 where "e4 = e3 + (1 + e3) / 2 ^ 24"
  define c where "c = CURRENT_FACTOR"
  define x where "x = real_of_int v * c * real_of_int y / 1000"
  have "\<bar>c - c\<bar> \<le> 0 * \<bar>c\<bar>" by simp
  then have "\<bar>to_double c - c\<bar> \<le> e0 * \<bar>c\<bar>"
    unfolding to_double_def e0_def by (intro rel_step) auto
  then have "\<bar>real_of_int v * to_double c - real_of_int v * c\<bar> \<le> e0 * \<bar>real_of_int v * c\<bar>"
    by (rule rel_scale(1))
  then have "\<bar>to_double (real_of_int v * to_double c) - real_of_int v * c\<bar>
      \<le> e1 * \<bar>real_of_int v * c\<bar>"
    unfolding to_double_def e1_def by (intro rel_step) auto
  then have "\<bar>to_double (real_of_int v * to_double c) * real_of_int y
      - real_of_int v * c * real_of_int y\<bar> \<le> e1 * \<bar>real_of_int v * c * real_of_int y\<bar>"
    by (rule rel_scale(2))
  then have "\<bar>to_double (to_double (real_of_int v * to_double c) * real_of_int y)
      - real_of_int v * c * real_of_int y\<bar> \<le> e2 * \<bar>real_of_int v * c * real_of_int y\<bar>"
    unfolding to_double_def e2_def by (intro rel_step) auto
  then have "\<bar>to_double (to_double (real_of_int v * to_double c) * real_of_int y) / 1000
      - real_of_int v * c * real_of_int y / 1000\<bar> \<le> e2 * \<bar>real_of_int v * c * real_of_int y / 1000\<bar>"
    by (rule rel_scale(3))
  then have "\<bar>to_double (to_double (to_double (real_of_int v * to_double c) * real_of_int y) / 1000)
      - x\<bar> \<le> e3 * \<bar>x\<bar>"
    unfolding to_double_def e3_def x_def by (intro rel_step) auto
  then have "\<bar>hall_current v y - x\<bar> \<le> e4 * \<bar>x\<bar>"
    unfolding hall_current_def to_float_def e4_def c_def by (intro rel_step) auto
  moreover have "e4 \<le> 1 / 2 ^ 23"
    unfolding e4_def e3_def e2_def e1_def e0_def by simp
  then have "e4 * \<bar>x\<bar> \<le> 1 / 2 ^ 23 * \<bar>x\<bar>" by (intro mult_right_mono) auto
  ultimately show ?thesis unfolding x_def c_def by simp
qed

subsection \<open>What each stage leaves unchanged\<close>

lemma calculate_current_frame [simp]:
  "LPAD_FFT_avg_array (calculate_current s) = LPAD_FFT_avg_array s"
  "RPAD_FFT_avg_array (calculate_current s) = RPAD_FFT_avg_array s"
  "LHALL_FFT_avg_array (calculate_current s) = LHALL_FFT_avg_array s"
  "RHALL_FFT_avg_array (calculate_current s) = RHALL_FFT_avg_array s"
  "LPAD_FFT_distance (calculate_current s) = LPAD_FFT_distance s"
  "RPAD_FFT_distance (calculate_current s) = RPAD_FFT_distance s"
  "LHALL_FFT_voltage (calculate_current s) = LHALL_FFT_voltage s"
  "RHALL_FFT_voltage (calculate_current s) = RHALL_FFT_voltage s"
  "X_Pos (calculate_current s) = X_Pos s"
  "Y_Pos (calculate_current s) = Y_Pos s"
  "Gamma (calculate_current s) = Gamma s"
  "avg_counter (calculate_current s) = avg_counter s"
  "num_of_samples (calculate_current s) = num_of_samples s"
  by (simp_all add: calculate_current_def)

lemma check_display_bounderies_frame [simp]:
  "LPAD_FFT_avg_array (check_display_bounderies s) = LPAD_FFT_avg_array s"
  "RPAD_FFT_avg_array (check_display_bounderies s) = RPAD_FFT_avg_array s"
  "LHALL_FFT_avg_array (check_display_bounderies s) = LHALL_FFT_avg_array s"
  "RHALL_FFT_avg_array (check_display_bounderies s) = RHALL_FFT_avg_array s"
  "LPAD_FFT_distance (check_display_bounderies s) = LPAD_FFT_distance s"
  "RPAD_FFT_distance (check_display_bounderies s) = RPAD_FFT_distance s"
  "LHALL_FFT_voltage (check_display_bounderies s) = LHALL_FFT_voltage s"
  "RHALL_FFT_voltage (check_display_bounderies s) = RHALL_FFT_voltage s"
  "Gamma (check_display_bounderies s) = Gamma s"
  "current (check_display_bounderies s) = current s"
  "avg_counter (check_display_bounderies s) = avg_counter s"
  "num_of_samples (check_display_bounderies s) = num_of_samples s"
  by (simp_all add: check_display_bounderies_def Let_def)

lemma locate_frame [simp]:
  "LPAD_FFT_avg_array (locate a b s) = LPAD_FFT_avg_array s"
  "RPAD_FFT_avg_array (locate a b s) = RPAD_FFT_avg_array s"
  "LHALL_FFT_avg_array (locate a b s) = LHALL_FFT_avg_array s"
  "RHALL_FFT_avg_array (locate a b s) = RHALL_FFT_avg_array s"
  "LPAD_FFT_distance (locate a b s) = LPAD_FFT_distance s"
  "RPAD_FFT_distance (locate a b s) = RPAD_FFT_distance s"
  "LHALL_FFT_voltage (locate a b s) = LHALL_FFT_voltage s"
  "RHALL_FFT_voltage (locate a b s) = RHALL_FFT_voltage s"
  "current (locate a b s) = current s"
  "avg_counter (locate a b s) = avg_counter s"
  "num_of_samples (locate a b s) = num_of_samples s"
  by (simp_all add: locate_def Let_def)

lemma triangulate_frame [simp]:
  "LPAD_FFT_avg_array (triangulate a b s) = LPAD_FFT_avg_array s"
  "RPAD_FFT_avg_array (triangulate a b s) = RPAD_FFT_avg_array s"
  "LHALL_FFT_avg_array (triangulate a b s) = LHALL_FFT_avg_array s"
  "RHALL_FFT_avg_array (triangulate a b s) = RHALL_FFT_avg_array s"
  "LPAD_FFT_distance (triangulate a b s) = LPAD_FFT_distance s"
  "RPAD_FFT_distance (triangulate a b s) = RPAD_FFT_distance s"
  "LHALL_FFT_voltage (triangulate a b s) = LHALL_FFT_voltage s"
  "RHALL_FFT_voltage (triangulate a b s) = RHALL_FFT_voltage s"
  "avg_counter (triangulate a b s) = avg_counter s"
  "num_of_samples (triangulate a b s) = num_of_samples s"
  by (simp_all add: triangulate_def)

lemma position_stage_frame [simp]:
  "LPAD_FFT_avg_array (position_stage s) = LPAD_FFT_avg_array s"
  "RPAD_FFT_avg_array (position_stage s) = RPAD_FFT_avg_array s"
  "LHALL_FFT_avg_array (position_stage s) = LHALL_FFT_avg_array s"
  "RHALL_FFT_avg_array (position_stage s) = RHALL_FFT_avg_array s"
  "LPAD_FFT_distance (position_stage s) = LPAD_FFT_distance s"
  "RPAD_FFT_distance (position_stage s) = RPAD_FFT_distance s"
  "LHALL_FFT_voltage (position_stage s) = LHALL_FFT_voltage s"
  "RHALL_FFT_voltage (position_stage s) = RHALL_FFT_voltage s"
  "avg_counter (position_stage s) = avg_counter s"
  "num_of_samples (position_stage s) = num_of_samples s"
  by (simp_all add: position_stage_def Let_def)

subsection \<open>The branches of calculate\_pos\<close>

text \<open>position\_stage runs the triangulation exactly on the paths that pos\_path names.\<close>

lemma position_stage_path:
  "position_stage s =
     (case pos_path (LPAD_FFT_distance s) (RPAD_FFT_distance s) of
        Skipped \<Rightarrow> s
      | Domain_fail \<Rightarrow> s
      | _ \<Rightarrow> triangulate (d_acos (cos_alpha_of (LPAD_FFT_distance s) (RPAD_FFT_distance s)))
               (d_acos (cos_beta_of (LPAD_FFT_distance s) (RPAD_FFT_distance s))) s)"
  by (simp add: position_stage_def pos_path_def Let_def)

lemma pos_path_Skipped: "(pos_path L R = Skipped) = (L = FFT_NO_SIGNAL \<and> R = FFT_NO_SIGNAL)"
  by (simp add: pos_path_def Let_def)

lemma pos_path_Domain_fail:
  "(pos_path L R = Domain_fail) =
     ((L \<noteq> FFT_NO_SIGNAL \<or> R \<noteq> FFT_NO_SIGNAL)
      \<and> \<not> acos_range_check (cos_alpha_of L R) (cos_beta_of L R))"
  by (simp add: pos_path_def Let_def)

lemma position_stage_no_check:
  "\<not> range_check_of s \<Longrightarrow> position_stage s = s"
  by (simp add: position_stage_def range_check_of_def Let_def)

lemma range_check_of_position_stage [simp]:
  "range_check_of (position_stage s) = range_check_of s"
  by (simp add: range_check_of_def)

lemma path_of_position_stage [simp]: "path_of (position_stage s) = path_of s"
  by (simp add: path_of_def)

lemma path_of_Domain_fail: "path_of s = Domain_fail \<Longrightarrow> \<not> range_check_of s"
  by (simp add: path_of_def range_check_of_def pos_path_Domain_fail)

lemma path_of_Skipped: "path_of s = Skipped \<Longrightarrow> position_stage s = s"
  by (simp add: path_of_def position_stage_path)

lemma calculate_FFT_frame:
  assumes "calculate_FFT T t s = Some s1"
  shows "X_Pos s1 = X_Pos s \<and> Y_Pos s1 = Y_Pos s \<and> Gamma s1 = Gamma s
    \<and> current s1 = current s \<and> num_of_samples s1 = num_of_samples s"
  using assms
  by (cases t)
    (auto simp add: calculate_FFT_def averaging_FFT_semples_def distance_LUT_def Let_def
      split: if_splits)

text \<open>
  A call with data ready ends with the position stage, entered with the three error codes
  in X\_Pos, Y\_Pos and Gamma and with the current of before the call.
\<close>

lemma calculate_pos_ready:
  assumes "calculate_pos T W True t s = Some s'"
  obtains s1 where "s' = position_stage s1" "X_Pos s1 = CALC_OUTOF_X_RANGE"
    "Y_Pos s1 = CALC_OUTOF_Y_RANGE" "Gamma s1 = real_of_int CALC_OUTOF_ANGLE_RANGE"
    "current s1 = current s"
proof -
  obtain s1 where s1: "calculate_FFT T t (begin_cycle W s) = Some s1" "s' = position_stage s1"
    using assms by (auto simp add: calculate_pos_def begin_cycle_def split: option.splits)
  from calculate_FFT_frame [OF s1(1)] have "X_Pos s1 = CALC_OUTOF_X_RANGE"
    "Y_Pos s1 = CALC_OUTOF_Y_RANGE" "Gamma s1 = real_of_int CALC_OUTOF_ANGLE_RANGE"
    "current s1 = current s"
    by (simp_all add: begin_cycle_def)
  with s1(2) that show thesis by blast
qed

lemma calculate_pos_not_ready:
  "calculate_pos T W False t s = Some (s\<lparr>num_of_samples := W\<rparr>)"
  by (simp add: calculate_pos_def)

lemma calculate_pos_unfilled:
  assumes "0 \<le> avg_counter s" "avg_counter s < 3" "avg_counter s \<noteq> W - 1"
  shows "calculate_pos T W True t s =
    Some (position_stage ((store_tones t (begin_cycle W s))\<lparr>avg_counter := avg_counter s + 1\<rparr>))"
  using assms
  by (cases t)
    (simp add: calculate_pos_def calculate_FFT_def averaging_FFT_semples_def
      store_tones_def begin_cycle_def)

lemma calculate_pos_filled:
  assumes "1 \<le> W" "W \<le> 3" "avg_counter s = W - 1"
  shows "calculate_pos T W True t s =
    Some (position_stage (distance_LUT T (average_slots (store_tones t (begin_cycle W s)))))"
  using assms
  by (cases t)
    (simp add: calculate_pos_def calculate_FFT_def averaging_FFT_semples_def
      store_tones_def begin_cycle_def average_slots_def Let_def)

subsection \<open>The quotients of the law of cosines\<close>

lemma range_check_Fin:
  "acos_range_check ca cb \<Longrightarrow>
     \<exists>x y. ca = Fin x \<and> cb = Fin y \<and> - 1 < x \<and> x \<le> 1 \<and> - 1 < y \<and> y \<le> 1"
  by (cases ca; cases cb) (auto simp add: acos_range_check_def)

lemma range_check_finite: "acos_range_check ca cb \<Longrightarrow> is_finite ca \<and> is_finite cb"
  by (cases ca; cases cb) (simp_all add: acos_range_check_def)

lemma ddiv_Fin: "ddiv n d = Fin x \<Longrightarrow> d \<noteq> 0 \<and> x = real_of_int n / real_of_int d"
  by (auto simp add: ddiv_def split: if_splits)

lemma cos_alpha_nonfinite: "\<not> is_finite (cos_alpha_of L 0)"
  by (simp add: cos_defs)

lemma cos_beta_nonfinite: "\<not> is_finite (cos_beta_of 0 R)"
  by (simp add: cos_defs)

lemma arccos_lt_half_pi: "- 1 \<le> x \<Longrightarrow> x \<le> 1 \<Longrightarrow> (arccos x < pi / 2) = (0 < x)"
  using arccos_less_mono [of x 0] by (simp add: abs_le_iff)

subsection \<open>The position stage reads the distances, the Hall averages and the estimate only\<close>

lemma same_inputs_calculate_current:
  "same_inputs s s' \<Longrightarrow>
     same_inputs (calculate_current s) (calculate_current s')
     \<and> current (calculate_current s) = current (calculate_current s')"
  by (simp add: same_inputs_def calculate_current_def)

lemma same_inputs_check_display_bounderies:
  "same_inputs s s' \<and> current s = current s' \<Longrightarrow>
     same_inputs (check_display_bounderies s) (check_display_bounderies s')
     \<and> current (check_display_bounderies s) = current (check_display_bounderies s')"
  by (simp add: same_inputs_def check_display_bounderies_def Let_def)

lemma same_inputs_locate:
  "same_inputs s s' \<Longrightarrow> same_inputs (locate a b s) (locate a b s')"
  by (simp add: same_inputs_def locate_def Let_def)

lemma same_inputs_triangulate:
  assumes "same_inputs s s'"
  shows "same_inputs (triangulate a b s) (triangulate a b s')
     \<and> current (triangulate a b s) = current (triangulate a b s')"
  unfolding triangulate_def
  by (intro same_inputs_check_display_bounderies same_inputs_calculate_current
      same_inputs_locate assms)

lemma same_inputs_position_stage:
  assumes "same_inputs s s'"
  shows "estimate (position_stage s) = estimate (position_stage s')
    \<and> (current (position_stage s) = current (position_stage s')
        \<or> (current (position_stage s) = current s \<and> current (position_stage s') = current s'))"
proof (cases "(LPAD_FFT_distance s \<noteq> FFT_NO_SIGNAL \<or> RPAD_FFT_distance s \<noteq> FFT_NO_SIGNAL) \<and> range_check_of s")
  case True
  then have "position_stage s = triangulate (d_acos (cos_alpha_of (LPAD_FFT_distance s) (RPAD_FFT_distance s)))
               (d_acos (cos_beta_of (LPAD_FFT_distance s) (RPAD_FFT_distance s))) s"
    by (simp add: position_stage_def range_check_of_def Let_def)
  moreover from True assms have "position_stage s' = triangulate (d_acos (cos_alpha_of (LPAD_FFT_distance s) (RPAD_FFT_distance s)))
               (d_acos (cos_beta_of (LPAD_FFT_distance s) (RPAD_FFT_distance s))) s'"
    by (simp add: position_stage_def range_check_of_def Let_def same_inputs_def)
  ultimately show ?thesis
    using same_inputs_triangulate [OF assms] by (simp add: estimate_def same_inputs_def)
next
  case False
  then have "position_stage s = s"
    by (auto simp add: position_stage_def range_check_of_def Let_def)
  moreover from False assms have "position_stage s' = s'"
    by (auto simp add: position_stage_def range_check_of_def Let_def same_inputs_def)
  ultimately show ?thesis using assms by (simp add: estimate_def same_inputs_def)
qed

text \<open>
  When the triangulation is skipped or the range check fails, a call leaves the three error
  codes in the estimate and does not touch the current.
\<close>

lemma failed_solve_keeps_current:
  assumes "calculate_pos T W True t s = Some s'"
    and "path_of s' = Skipped \<or> path_of s' = Domain_fail"
  shows "current s' = current s \<and> estimate s' =
    (CALC_OUTOF_X_RANGE, CALC_OUTOF_Y_RANGE, real_of_int CALC_OUTOF_ANGLE_RANGE)"
proof -
  obtain s1 where s1: "s' = position_stage s1" "X_Pos s1 = CALC_OUTOF_X_RANGE"
    "Y_Pos s1 = CALC_OUTOF_Y_RANGE" "Gamma s1 = real_of_int CALC_OUTOF_ANGLE_RANGE"
    "current s1 = current s"
    using assms(1) by (rule calculate_pos_ready)
  from assms(2) s1(1) have "path_of s1 = Skipped \<or> path_of s1 = Domain_fail" by simp
  then have "position_stage s1 = s1"
    using path_of_Skipped path_of_Domain_fail position_stage_no_check by blast
  with s1 show ?thesis by (simp add: estimate_def)
qed

subsection \<open>The pipeline at 30 mm from both pads\<close>

lemma cos_of_30_30: "cos_alpha_of 30 30 = Fin (5 / 6)" "cos_beta_of 30 30 = Fin (5 / 6)"
  by (simp_all add: cos_defs)

lemma arccos_5_6_acute: "arccos (5 / 6) < pi / 2"
  using arccos_lt_half_pi [of "5 / 6"] by simp

lemma sin_arccos_5_6_bounds: "16 \<le> sin (arccos (5 / 6)) * 30" "sin (arccos (5 / 6)) * 30 < 17"
proof -
  have s: "sin (arccos (5 / 6 :: real)) = sqrt (11 / 36)"
    by (simp add: sin_arccos power2_eq_square)
  have "(8 / 15 :: real)\<^sup>2 \<le> 11 / 36" by (simp add: power2_eq_square)
  then have "8 / 15 \<le> sqrt (11 / 36 :: real)" by (rule real_le_rsqrt)
  then show "16 \<le> sin (arccos (5 / 6)) * 30" by (simp add: s)
  have "(11 / 36 :: real) < (17 / 30)\<^sup>2" by (simp add: power2_eq_square)
  then have "sqrt (11 / 36 :: real) < 17 / 30" by (intro real_less_lsqrt) simp_all
  then show "sin (arccos (5 / 6)) * 30 < 17" by (simp add: s)
qed

lemma c_trunc_sin_30: "c_trunc (sin (arccos (5 / 6)) * 30) = 16"
proof -
  have "\<lfloor>sin (arccos (5 / 6)) * 30\<rfloor> = 16"
    using sin_arccos_5_6_bounds by (intro floor_unique) simp_all
  moreover have "0 \<le> sin (arccos (5 / 6 :: real)) * 30" using sin_arccos_5_6_bounds(1) by linarith
  ultimately show ?thesis by (simp add: c_trunc_def)
qed

lemma c_trunc_zero: "c_trunc 0 = 0"
  by (simp add: c_trunc_def)

lemma atan2_ahead: "0 < y \<Longrightarrow> atan2 y 0 = pi / 2"
  by (simp add: atan2_def)

lemma position_stage_30_30:
  assumes "LPAD_FFT_distance s = 30" "RPAD_FFT_distance s = 30"
  shows "position_stage s =
    check_display_bounderies (calculate_current (s\<lparr>X_Pos := 0, Y_Pos := 16, Gamma := 0\<rparr>))"
  using assms arccos_5_6_acute
  by (simp add: position_stage_def cos_of_30_30 acos_range_check_def triangulate_def locate_def
      Let_def c_div_def c_trunc_sin_30 c_trunc_zero atan2_ahead)

lemma first_cycle:
  "calculate_pos sample_tables 1 True (1200, 1200, 100, 50) startup = Some published_state"
  apply (simp add: calculate_pos_filled startup_def)
  apply (simp add: begin_cycle_def store_tones_def average_slots_def distance_LUT_def
      pad_distance_def c_div_def sample_tables_def sample_lut_def)
  apply (simp add: position_stage_30_30 calculate_current_def check_display_bounderies_def
      hall_current_100_16 published_state_def)
  done

lemma one_pad_silent_cycle:
  "calculate_pos sample_tables 1 True (100, 1200, 100, 50) published_state =
     Some (published_state\<lparr>LPAD_FFT_avg_array := (\<lambda>_. 0)(0 := 100),
        LPAD_FFT_distance := 1111, X_Pos := 2333, Y_Pos := 2222, Gamma := 2444\<rparr>)"
  apply (simp add: calculate_pos_filled published_state_def)
  apply (simp add: begin_cycle_def store_tones_def average_slots_def distance_LUT_def
      pad_distance_def c_div_def sample_tables_def sample_lut_def)
  apply (simp add: position_stage_no_check range_check_of_def acos_range_check_def
      cos_defs)
  done

lemma one_pad_silent_path:
  "path_of (published_state\<lparr>LPAD_FFT_avg_array := (\<lambda>_. 0)(0 := 100),
        LPAD_FFT_distance := 1111, X_Pos := 2333, Y_Pos := 2222, Gamma := 2444\<rparr>) = Domain_fail"
  by (simp add: path_of_def pos_path_Domain_fail published_state_def acos_range_check_def
      cos_defs)

text \<open>A distance of 1111 next to one of 1100 passes the range check.\<close>

lemma sentinel_triangulated: "pos_path 1111 1100 = Case2"
proof -
  have a: "cos_alpha_of 1111 1100 = Fin (- 21821 / 110000)"
    by (simp add: cos_defs)
  have b: "cos_beta_of 1111 1100 = Fin (26821 / 111100)"
    by (simp add: cos_defs)
  have "\<not> arccos (- 21821 / 110000) < pi / 2" "arccos (26821 / 111100) < pi / 2"
    using arccos_lt_half_pi [of "- 21821 / 110000"] arccos_lt_half_pi [of "26821 / 111100"]
    by simp_all
  then show ?thesis
    by (simp add: pos_path_def a b acos_range_check_def Let_def)
qed

subsection \<open>The calibration\<close>

lemma pad_distance_inside:
  "PAD_Min < r \<Longrightarrow> r < PAD_Max \<Longrightarrow> pad_distance lut PAD_Min PAD_Max r = lut (nat (r - PAD_Min))"
  by (simp add: pad_distance_def)

lemma pad_distance_above:
  "PAD_Max < r \<Longrightarrow> PAD_Min \<le> PAD_Max \<Longrightarrow> pad_distance lut PAD_Min PAD_Max r = 0"
  by (simp add: pad_distance_def)

lemma pad_distance_below:
  "r \<le> PAD_Min \<Longrightarrow> PAD_Min \<le> PAD_Max \<Longrightarrow> pad_distance lut PAD_Min PAD_Max r = FFT_NO_SIGNAL"
  by (simp add: pad_distance_def)

subsection \<open>The average\<close>

lemma c_div_floor: "0 \<le> a \<Longrightarrow> 0 < b \<Longrightarrow> c_div a b = a div b"
  by (cases "a = 0") (simp_all add: c_div_def)

lemma sint_small: "0 \<le> m \<Longrightarrow> m < 2 ^ 31 \<Longrightarrow> sint (word_of_int m :: 32 word) = m"
  by (simp add: sint_sbintrunc' signed_take_bit_int_eq_self)

lemma sum_slots_exact:
  "(\<Sum>i<n. unat (arr i)) < 2 ^ 31 \<Longrightarrow> sum_slots arr n = int (\<Sum>i<n. unat (arr i))"
proof (induction n)
  case 0
  then show ?case by simp
next
  case (Suc n)
  let ?m = "int (\<Sum>i<Suc n. unat (arr i))"
  from Suc.prems have small: "(\<Sum>i<n. unat (arr i)) < 2 ^ 31" by simp
  have w: "word_of_int (sum_slots arr n) + arr n = (word_of_int ?m :: 32 word)"
    using Suc.IH [OF small] by simp
  have b: "?m < 2 ^ 31"
    using Suc.prems by (metis of_nat_less_iff of_nat_numeral of_nat_power)
  have "sum_slots arr (Suc n) = sint (word_of_int ?m :: 32 word)"
    by (simp only: sum_slots.simps w)
  also have "\<dots> = ?m"
  proof (rule sint_small)
    show "0 \<le> ?m" by (simp only: of_nat_0_le_iff)
    show "?m < 2 ^ 31" by (rule b)
  qed
  finally show ?case .
qed

lemma average_refines_spec:
  assumes "0 < W" "(\<Sum>i<nat W. unat (arr i)) < 2 ^ 31"
  shows "c_div (sum_slots arr (nat W)) W = spec_average arr W"
proof -
  have e: "sum_slots arr (nat W) = int (\<Sum>i<nat W. unat (arr i))"
    using assms(2) by (rule sum_slots_exact)
  then have "0 \<le> sum_slots arr (nat W)" by (simp only: of_nat_0_le_iff)
  then have "c_div (sum_slots arr (nat W)) W = sum_slots arr (nat W) div W"
    using assms(1) by (rule c_div_floor)
  also have "\<dots> = int (\<Sum>i<nat W. unat (arr i)) div int (nat W)"
    using assms(1) by (simp only: e) simp
  also have "\<dots> = spec_average arr W"
    by (simp only: spec_average_def zdiv_int)
  finally show ?thesis .
qed

lemma calculate_pos_unfilled_fields:
  assumes "0 \<le> avg_counter s" "avg_counter s < 3" "avg_counter s \<noteq> W - 1"
  shows "\<exists>s'. calculate_pos T W True (lp, rp, lh, rh) s = Some s'
    \<and> avg_counter s' = avg_counter s + 1
    \<and> LPAD_FFT_avg_array s' = (LPAD_FFT_avg_array s)(nat (avg_counter s) := lp)
    \<and> RPAD_FFT_avg_array s' = (RPAD_FFT_avg_array s)(nat (avg_counter s) := rp)
    \<and> LHALL_FFT_avg_array s' = (LHALL_FFT_avg_array s)(nat (avg_counter s) := lh)
    \<and> RHALL_FFT_avg_array s' = (RHALL_FFT_avg_array s)(nat (avg_counter s) := rh)"
  using calculate_pos_unfilled [OF assms, of T "(lp, rp, lh, rh)"]
  by (simp add: store_tones_def begin_cycle_def)

lemma calculate_pos_filled_fields:
  assumes "1 \<le> W" "W \<le> 3" "avg_counter s = W - 1"
  shows "\<exists>s'. calculate_pos T W True (lp, rp, lh, rh) s = Some s'
    \<and> avg_counter s' = 0
    \<and> LPAD_FFT_avg_array s' = (LPAD_FFT_avg_array s)(nat (avg_counter s) := lp)
    \<and> RPAD_FFT_avg_array s' = (RPAD_FFT_avg_array s)(nat (avg_counter s) := rp)
    \<and> LHALL_FFT_avg_array s' = (LHALL_FFT_avg_array s)(nat (avg_counter s) := lh)
    \<and> RHALL_FFT_avg_array s' = (RHALL_FFT_avg_array s)(nat (avg_counter s) := rh)
    \<and> published_average T W s'"
proof -
  let ?s1 = "store_tones (lp, rp, lh, rh) (begin_cycle W s)"
  let ?s' = "position_stage (distance_LUT T (average_slots ?s1))"
  have c: "calculate_pos T W True (lp, rp, lh, rh) s = Some ?s'"
    using assms by (rule calculate_pos_filled)
  have e: "estimate ?s1 = (CALC_OUTOF_X_RANGE, CALC_OUTOF_Y_RANGE, real_of_int CALC_OUTOF_ANGLE_RANGE)"
    by (simp add: estimate_def store_tones_def begin_cycle_def)
  have f: "avg_counter ?s' = 0"
    "LPAD_FFT_avg_array ?s' = (LPAD_FFT_avg_array s)(nat (avg_counter s) := lp)"
    "RPAD_FFT_avg_array ?s' = (RPAD_FFT_avg_array s)(nat (avg_counter s) := rp)"
    "LHALL_FFT_avg_array ?s' = (LHALL_FFT_avg_array s)(nat (avg_counter s) := lh)"
    "RHALL_FFT_avg_array ?s' = (RHALL_FFT_avg_array s)(nat (avg_counter s) := rh)"
    by (simp_all add: distance_LUT_def average_slots_def store_tones_def begin_cycle_def)
  have v: "LHALL_FFT_voltage ?s' = c_div (sum_slots (LHALL_FFT_avg_array ?s') (nat W)) W"
    "RHALL_FFT_voltage ?s' = c_div (sum_slots (RHALL_FFT_avg_array ?s') (nat W)) W"
    "LPAD_FFT_distance ?s' = pad_distance (LPAD_LUT T) LPAD_Min LPAD_Max
            (c_div (sum_slots (LPAD_FFT_avg_array ?s') (nat W)) W)"
    "RPAD_FFT_distance ?s' = pad_distance (RPAD_LUT T) RPAD_Min RPAD_Max
            (c_div (sum_slots (RPAD_FFT_avg_array ?s') (nat W)) W)"
    by (simp_all add: distance_LUT_def average_slots_def store_tones_def begin_cycle_def)
  have "published_average T W ?s'"
    unfolding published_average_def using v e by blast
  with c f show ?thesis by blast
qed

lemma run_window:
  assumes "W \<in> {1, 2, 3}" "length ts = nat W" "avg_counter s = 0"
  shows "\<exists>s'. run T W (map (Pair True) ts) s = Some s' \<and> avg_counter s' = 0
    \<and> (\<forall>i<nat W. slots s' i = ts ! i) \<and> published_average T W s'"
proof -
  consider "W = 1" | "W = 2" | "W = 3" using assms(1) by auto
  then show ?thesis
  proof cases
    case 1
    then obtain t1 where ts: "ts = [t1]"
      using assms(2) by (cases ts) auto
    obtain a b c d where t1: "t1 = (a, b, c, d)" by (cases t1) auto
    obtain s' where "calculate_pos T W True (a, b, c, d) s = Some s'" "avg_counter s' = 0"
      "LPAD_FFT_avg_array s' = (LPAD_FFT_avg_array s)(nat (avg_counter s) := a)"
      "RPAD_FFT_avg_array s' = (RPAD_FFT_avg_array s)(nat (avg_counter s) := b)"
      "LHALL_FFT_avg_array s' = (LHALL_FFT_avg_array s)(nat (avg_counter s) := c)"
      "RHALL_FFT_avg_array s' = (RHALL_FFT_avg_array s)(nat (avg_counter s) := d)"
      "published_average T W s'"
      using calculate_pos_filled_fields [of W s T a b c d] 1 assms(3) by auto
    then show ?thesis
      using 1 ts t1 assms(3) by (simp add: slots_def)
  next
    case 2
    then obtain t1 t2 where ts: "ts = [t1, t2]"
      using assms(2) by (cases ts; cases "tl ts") auto
    obtain a b c d where t1: "t1 = (a, b, c, d)" by (cases t1) auto
    obtain a2 b2 c2 d2 where t2: "t2 = (a2, b2, c2, d2)" by (cases t2) auto
    obtain sa where sa: "calculate_pos T W True (a, b, c, d) s = Some sa" "avg_counter sa = 1"
      "LPAD_FFT_avg_array sa = (LPAD_FFT_avg_array s)(0 := a)"
      "RPAD_FFT_avg_array sa = (RPAD_FFT_avg_array s)(0 := b)"
      "LHALL_FFT_avg_array sa = (LHALL_FFT_avg_array s)(0 := c)"
      "RHALL_FFT_avg_array sa = (RHALL_FFT_avg_array s)(0 := d)"
      using calculate_pos_unfilled_fields [of s W T a b c d] 2 assms(3) by auto
    obtain s' where s': "calculate_pos T W True (a2, b2, c2, d2) sa = Some s'" "avg_counter s' = 0"
      "LPAD_FFT_avg_array s' = (LPAD_FFT_avg_array sa)(1 := a2)"
      "RPAD_FFT_avg_array s' = (RPAD_FFT_avg_array sa)(1 := b2)"
      "LHALL_FFT_avg_array s' = (LHALL_FFT_avg_array sa)(1 := c2)"
      "RHALL_FFT_avg_array s' = (RHALL_FFT_avg_array sa)(1 := d2)"
      "published_average T W s'"
      using calculate_pos_filled_fields [of W sa T a2 b2 c2 d2] 2 sa(2) by auto
    have "\<forall>i<nat W. slots s' i = ts ! i"
      using 2 ts t1 t2 sa s' by (auto simp add: slots_def less_Suc_eq numeral_2_eq_2)
    then show ?thesis
      using ts t1 t2 sa(1) s'(1,2,7) by simp
  next
    case 3
    then obtain t1 t2 t3 where ts: "ts = [t1, t2, t3]"
      using assms(2) by (cases ts; cases "tl ts"; cases "tl (tl ts)") auto
    obtain a b c d where t1: "t1 = (a, b, c, d)" by (cases t1) auto
    obtain a2 b2 c2 d2 where t2: "t2 = (a2, b2, c2, d2)" by (cases t2) auto
    obtain a3 b3 c3 d3 where t3: "t3 = (a3, b3, c3, d3)" by (cases t3) auto
    obtain sa where sa: "calculate_pos T W True (a, b, c, d) s = Some sa" "avg_counter sa = 1"
      "LPAD_FFT_avg_array sa = (LPAD_FFT_avg_array s)(0 := a)"
      "RPAD_FFT_avg_array sa = (RPAD_FFT_avg_array s)(0 := b)"
      "LHALL_FFT_avg_array sa = (LHALL_FFT_avg_array s)(0 := c)"
      "RHALL_FFT_avg_array sa = (RHALL_FFT_avg_array s)(0 := d)"
      using calculate_pos_unfilled_fields [of s W T a b c d] 3 assms(3) by auto
    obtain sb where sb: "calculate_pos T W True (a2, b2, c2, d2) sa = Some sb" "avg_counter sb = 2"
      "LPAD_FFT_avg_array sb = (LPAD_FFT_avg_array sa)(1 := a2)"
      "RPAD_FFT_avg_array sb = (RPAD_FFT_avg_array sa)(1 := b2)"
      "LHALL_FFT_avg_array sb = (LHALL_FFT_avg_array sa)(1 := c2)"
      "RHALL_FFT_avg_array sb = (RHALL_FFT_avg_array sa)(1 := d2)"
      using calculate_pos_unfilled_fields [of sa W T a2 b2 c2 d2] 3 sa(2) by auto
    obtain s' where s': "calculate_pos T W True (a3, b3, c3, d3) sb = Some s'" "avg_counter s' = 0"
      "LPAD_FFT_avg_array s' = (LPAD_FFT_avg_array sb)(2 := a3)"
      "RPAD_FFT_avg_array s' = (RPAD_FFT_avg_array sb)(2 := b3)"
      "LHALL_FFT_avg_array s' = (LHALL_FFT_avg_array sb)(2 := c3)"
      "RHALL_FFT_avg_array s' = (RHALL_FFT_avg_array sb)(2 := d3)"
      "published_average T W s'"
      using calculate_pos_filled_fields [of W sb T a3 b3 c3 d3] 3 sb(2) by auto
    have "\<forall>i<nat W. slots s' i = ts ! i"
      using 3 ts t1 t2 t3 sa sb s' by (auto simp add: slots_def less_Suc_eq numeral_3_eq_3)
    then show ?thesis
      using ts t1 t2 t3 sa(1) sb(1) s'(1,2,7) by simp
  qed
qed

subsection \<open>The fill counter\<close>

lemma averaging_counter_step:
  assumes "W \<in> {1, 2, 3}" "num_of_samples s = W" "0 \<le> avg_counter s" "avg_counter s \<le> W - 1"
  shows "\<exists>s'. averaging_FFT_semples T s = Some s' \<and> 0 \<le> avg_counter s' \<and> avg_counter s' \<le> W - 1"
  using assms by (auto simp add: averaging_FFT_semples_def Let_def distance_LUT_def)

lemma calculate_pos_counter_step:
  assumes "W \<in> {1, 2, 3}" "0 \<le> avg_counter s" "avg_counter s \<le> W - 1"
  shows "\<exists>s'. calculate_pos T W ready t s = Some s' \<and> 0 \<le> avg_counter s' \<and> avg_counter s' \<le> W - 1"
proof (cases ready)
  case False
  then show ?thesis using assms by (simp add: calculate_pos_not_ready)
next
  case True
  show ?thesis
  proof (cases "avg_counter s = W - 1")
    case fill: True
    have "calculate_pos T W True t s =
        Some (position_stage (distance_LUT T (average_slots (store_tones t (begin_cycle W s)))))"
      using assms(1) fill by (intro calculate_pos_filled) auto
    then show ?thesis
      using True assms(1) by (auto simp add: distance_LUT_def average_slots_def)
  next
    case nofill: False
    have "calculate_pos T W True t s =
        Some (position_stage ((store_tones t (begin_cycle W s))\<lparr>avg_counter := avg_counter s + 1\<rparr>))"
      using assms nofill by (intro calculate_pos_unfilled) auto
    then show ?thesis
      using True assms nofill by auto
  qed
qed

lemma run_counter:
  assumes "W \<in> {1, 2, 3}"
  shows "0 \<le> avg_counter s \<Longrightarrow> avg_counter s \<le> W - 1 \<Longrightarrow>
    \<exists>s'. run T W cs s = Some s' \<and> 0 \<le> avg_counter s' \<and> avg_counter s' \<le> W - 1"
proof (induction cs arbitrary: s)
  case Nil
  then show ?case by simp
next
  case (Cons c cs)
  obtain ready t where c: "c = (ready, t)" by (cases c) auto
  obtain s1 where s1: "calculate_pos T W ready t s = Some s1" "0 \<le> avg_counter s1"
    "avg_counter s1 \<le> W - 1"
    using calculate_pos_counter_step [OF assms Cons.prems] by blast
  from Cons.IH [OF s1(2,3)] show ?case
    using c s1(1) by simp
qed

subsection \<open>The law of cosines with both distances positive and bounded\<close>

lemma no_fourth_case_pos:
  fixes L R :: int
  assumes "0 < L" "0 < R"
  shows "\<not> (real_of_int (R * R - L * L + 2500) / real_of_int (2 * R * 50) \<le> 0
          \<and> real_of_int (L * L + 2500 - R * R) / real_of_int (2 * L * 50) \<le> 0)"
proof
  assume h: "real_of_int (R * R - L * L + 2500) / real_of_int (2 * R * 50) \<le> 0
          \<and> real_of_int (L * L + 2500 - R * R) / real_of_int (2 * L * 50) \<le> 0"
  have dR: "0 < real_of_int (2 * R * 50)" using assms by simp
  have dL: "0 < real_of_int (2 * L * 50)" using assms by simp
  from h dR have "real_of_int (R * R - L * L + 2500) \<le> 0"
    by (simp only: divide_le_0_iff) linarith
  moreover from h dL have "real_of_int (L * L + 2500 - R * R) \<le> 0"
    by (simp only: divide_le_0_iff) linarith
  ultimately have "R * R - L * L + 2500 \<le> 0" "L * L + 2500 - R * R \<le> 0"
    by linarith+
  then show False by linarith
qed

text \<open>
  For distances between 0 and 46340 no sum or product of the two quotients leaves the
  32-bit range.
\<close>

lemma square_bound:
  fixes L :: int
  assumes "0 \<le> L" "L \<le> 46340"
  shows "0 \<le> L * L \<and> L * L \<le> 2147395600"
proof -
  have "L * L \<le> 46340 * 46340" using assms by (intro mult_mono) auto
  then show ?thesis using assms by simp
qed

lemma cos_no_overflow:
  assumes "0 \<le> L" "L \<le> 46340" "0 \<le> R" "R \<le> 46340"
  shows "cos_alpha_of L R = ddiv (R * R - L * L + 2500) (2 * R * 50)"
    and "cos_beta_of L R = ddiv (L * L + 2500 - R * R) (2 * L * 50)"
proof -
  have sq: "0 \<le> L * L" "L * L \<le> 2147395600" "0 \<le> R * R" "R * R \<le> 2147395600"
    using square_bound [OF assms(1,2)] square_bound [OF assms(3,4)] by auto
  have i: "i32 (L * L) = L * L" "i32 (R * R) = R * R"
    by (rule i32_range; use sq in linarith)+
  have i': "i32 2500 = 2500" "i32 (2 * L) = 2 * L" "i32 (2 * R) = 2 * R"
    by (rule i32_range; use assms in linarith)+
  have j: "i32 (R * R - L * L) = R * R - L * L" "i32 (L * L + 2500) = L * L + 2500"
    by (rule i32_range; use sq in linarith)+
  have j': "i32 (2 * L * 50) = 2 * L * 50" "i32 (2 * R * 50) = 2 * R * 50"
    by (rule i32_range; use assms in linarith)+
  have k: "i32 (R * R - L * L + 2500) = R * R - L * L + 2500"
    "i32 (L * L + 2500 - R * R) = L * L + 2500 - R * R"
    by (rule i32_range; use sq in linarith)+
  have p: "PAD_SPACING * PAD_SPACING = 2500" by (simp add: PAD_SPACING_def)
  show "cos_alpha_of L R = ddiv (R * R - L * L + 2500) (2 * R * 50)"
    unfolding cos_alpha_of_def p unfolding PAD_SPACING_def by (simp only: i i' j j' k)
  show "cos_beta_of L R = ddiv (L * L + 2500 - R * R) (2 * L * 50)"
    unfolding cos_beta_of_def p unfolding PAD_SPACING_def by (simp only: i i' j j' k)
qed

lemma i32_square:
  assumes "\<bar>L\<bar> \<le> 46340"
  shows "i32 (L * L) = L * L" "0 \<le> L * L" "L * L \<le> 2147395600"
proof -
  show sq: "0 \<le> L * L" "L * L \<le> 2147395600"
    using square_bound [of "\<bar>L\<bar>"] assms by simp_all
  show "i32 (L * L) = L * L" by (rule i32_range; use sq in linarith)
qed

lemma sentinel_cos_beta:
  "cos_beta_of FFT_NO_SIGNAL R =
     Fin (real_of_int (i32 (1111 * 1111 + 50 * 50 - i32 (R * R))) / real_of_int (2 * 1111 * 50))"
  "\<bar>R\<bar> \<le> 46340 \<Longrightarrow> cos_beta_of FFT_NO_SIGNAL R =
     Fin (real_of_int (1111 * 1111 + 50 * 50 - R * R) / real_of_int (2 * 1111 * 50))"
proof -
  have n: "i32 (1111 * 1111) = 1234321" "i32 (50 * 50) = 2500" "i32 (1234321 + 2500) = 1236821"
    "i32 (2 * 1111) = 2222" "i32 (2222 * 50) = 111100"
    by (simp_all add: i32_def)
  show 1: "cos_beta_of FFT_NO_SIGNAL R =
     Fin (real_of_int (i32 (1111 * 1111 + 50 * 50 - i32 (R * R))) / real_of_int (2 * 1111 * 50))"
    unfolding cos_beta_of_def FFT_NO_SIGNAL_def PAD_SPACING_def n by (simp add: ddiv_def)
  show "cos_beta_of FFT_NO_SIGNAL R =
     Fin (real_of_int (1111 * 1111 + 50 * 50 - R * R) / real_of_int (2 * 1111 * 50))"
    if h: "\<bar>R\<bar> \<le> 46340"
  proof -
    have "i32 (1236821 - R * R) = 1236821 - R * R"
      by (rule i32_range; use i32_square(2,3) [OF h] in linarith)
    then show ?thesis unfolding 1 i32_square(1) [OF h] by simp
  qed
qed

lemma sentinel_cos_alpha:
  "cos_alpha_of L FFT_NO_SIGNAL =
     Fin (real_of_int (i32 (i32 (1111 * 1111 - i32 (L * L)) + 50 * 50)) / real_of_int (2 * 1111 * 50))"
  "\<bar>L\<bar> \<le> 46340 \<Longrightarrow> cos_alpha_of L FFT_NO_SIGNAL =
     Fin (real_of_int (1111 * 1111 - L * L + 50 * 50) / real_of_int (2 * 1111 * 50))"
proof -
  have n: "i32 (1111 * 1111) = 1234321" "i32 (50 * 50) = 2500"
    "i32 (2 * 1111) = 2222" "i32 (2222 * 50) = 111100"
    by (simp_all add: i32_def)
  show 1: "cos_alpha_of L FFT_NO_SIGNAL =
     Fin (real_of_int (i32 (i32 (1111 * 1111 - i32 (L * L)) + 50 * 50)) / real_of_int (2 * 1111 * 50))"
    unfolding cos_alpha_of_def FFT_NO_SIGNAL_def PAD_SPACING_def n by (simp add: ddiv_def)
  show "cos_alpha_of L FFT_NO_SIGNAL =
     Fin (real_of_int (1111 * 1111 - L * L + 50 * 50) / real_of_int (2 * 1111 * 50))"
    if h: "\<bar>L\<bar> \<le> 46340"
  proof -
    have a: "i32 (1234321 - L * L) = 1234321 - L * L"
      by (rule i32_range; use i32_square(2,3) [OF h] in linarith)
    have "i32 (1234321 - L * L + 2500) = 1234321 - L * L + 2500"
      by (rule i32_range; use i32_square(2,3) [OF h] in linarith)
    then show ?thesis unfolding 1 i32_square(1) [OF h] by (simp add: a)
  qed
qed

lemma angles_not_both_obtuse:
  assumes "0 \<le> L" "L \<le> 46340" "0 \<le> R" "R \<le> 46340"
    and "acos_range_check (cos_alpha_of L R) (cos_beta_of L R)"
  shows "\<not> (d_acos (cos_alpha_of L R) \<ge> pi / 2 \<and> d_acos (cos_beta_of L R) \<ge> pi / 2)"
proof -
  obtain x y where xy: "cos_alpha_of L R = Fin x" "cos_beta_of L R = Fin y"
      "- 1 < x" "x \<le> 1" "- 1 < y" "y \<le> 1"
    using range_check_Fin [OF assms(5)] by blast
  from xy(1) have R0: "R \<noteq> 0"
    and x: "x = real_of_int (R * R - L * L + 2500) / real_of_int (2 * R * 50)"
    using ddiv_Fin [of "R * R - L * L + 2500" "2 * R * 50" x]
    by (simp_all add: cos_no_overflow [OF assms(1-4)])
  from xy(2) have L0: "L \<noteq> 0"
    and y: "y = real_of_int (L * L + 2500 - R * R) / real_of_int (2 * L * 50)"
    using ddiv_Fin [of "L * L + 2500 - R * R" "2 * L * 50" y]
    by (simp_all add: cos_no_overflow [OF assms(1-4)])
  have pos: "0 < L" "0 < R" using assms(1,3) L0 R0 by auto
  have not_both: "\<not> (x \<le> 0 \<and> y \<le> 0)"
    using no_fourth_case_pos [OF pos] x y by blast
  have a: "(arccos x < pi / 2) = (0 < x)" using xy arccos_lt_half_pi [of x] by simp
  have b: "(arccos y < pi / 2) = (0 < y)" using xy arccos_lt_half_pi [of y] by simp
  show ?thesis using not_both a b xy(1,2) by auto
qed

lemma bounded_not_Fallthrough:
  assumes "0 \<le> L" "L \<le> 46340" "0 \<le> R" "R \<le> 46340"
  shows "pos_path L R \<noteq> Fallthrough"
proof
  assume f: "pos_path L R = Fallthrough"
  then have rc: "acos_range_check (cos_alpha_of L R) (cos_beta_of L R)"
    by (simp add: pos_path_def Let_def split: if_splits)
  from f rc have "d_acos (cos_alpha_of L R) \<ge> pi / 2 \<and> d_acos (cos_beta_of L R) \<ge> pi / 2"
    by (auto simp add: pos_path_def Let_def split: if_splits)
  with angles_not_both_obtuse [OF assms rc] show False by blast
qed

text \<open>
  With tables whose entries lie between 0 and 46340, the distances lie there in every state
  that calls of calculate\_pos reach from startup, and the fall through the case analysis
  is not taken there.
\<close>

lemma pad_distance_bounded:
  "(\<And>i. 0 \<le> lut i \<and> lut i \<le> 46340) \<Longrightarrow>
     0 \<le> pad_distance lut PAD_Min PAD_Max r \<and> pad_distance lut PAD_Min PAD_Max r \<le> 46340"
  by (simp add: pad_distance_def)

lemma calculate_pos_distances_bounded:
  assumes "\<And>i. 0 \<le> LPAD_LUT T i \<and> LPAD_LUT T i \<le> 46340"
    and "\<And>i. 0 \<le> RPAD_LUT T i \<and> RPAD_LUT T i \<le> 46340"
    and "0 \<le> LPAD_FFT_distance s \<and> LPAD_FFT_distance s \<le> 46340"
    and "0 \<le> RPAD_FFT_distance s \<and> RPAD_FFT_distance s \<le> 46340"
    and "calculate_pos T W ready t s = Some s'"
  shows "(0 \<le> LPAD_FFT_distance s' \<and> LPAD_FFT_distance s' \<le> 46340)
    \<and> (0 \<le> RPAD_FFT_distance s' \<and> RPAD_FFT_distance s' \<le> 46340)"
proof -
  have fft: "(0 \<le> LPAD_FFT_distance s1 \<and> LPAD_FFT_distance s1 \<le> 46340)
      \<and> (0 \<le> RPAD_FFT_distance s1 \<and> RPAD_FFT_distance s1 \<le> 46340)"
    if "calculate_FFT T t (begin_cycle W s) = Some s1" for s1
    using that assms(3,4) pad_distance_bounded [of "LPAD_LUT T", OF assms(1)]
      pad_distance_bounded [of "RPAD_LUT T", OF assms(2)]
    by (cases t)
      (auto simp add: calculate_FFT_def averaging_FFT_semples_def distance_LUT_def Let_def
        begin_cycle_def split: if_splits)
  show ?thesis
    using assms(3-5) fft
    by (cases ready) (auto simp add: calculate_pos_def begin_cycle_def split: option.splits)
qed

lemma run_distances_bounded:
  assumes "\<And>i. 0 \<le> LPAD_LUT T i \<and> LPAD_LUT T i \<le> 46340"
    and "\<And>i. 0 \<le> RPAD_LUT T i \<and> RPAD_LUT T i \<le> 46340"
  shows "0 \<le> LPAD_FFT_distance s \<and> LPAD_FFT_distance s \<le> 46340 \<Longrightarrow>
    0 \<le> RPAD_FFT_distance s \<and> RPAD_FFT_distance s \<le> 46340 \<Longrightarrow>
    run T W cs s = Some s' \<Longrightarrow>
    (0 \<le> LPAD_FFT_distance s' \<and> LPAD_FFT_distance s' \<le> 46340)
    \<and> (0 \<le> RPAD_FFT_distance s' \<and> RPAD_FFT_distance s' \<le> 46340)"
proof (induction cs arbitrary: s)
  case Nil
  then show ?case by simp
next
  case (Cons c cs)
  obtain ready t where c: "c = (ready, t)" by (cases c) auto
  from Cons.prems(3) c obtain s1 where s1: "calculate_pos T W ready t s = Some s1"
    "run T W cs s1 = Some s'"
    by (auto split: option.splits)
  from calculate_pos_distances_bounded [OF assms Cons.prems(1,2) s1(1)]
  show ?case using Cons.IH s1(2) by blast
qed

lemma reachable_never_falls_through:
  assumes "\<And>i. 0 \<le> LPAD_LUT T i \<and> LPAD_LUT T i \<le> 46340"
    and "\<And>i. 0 \<le> RPAD_LUT T i \<and> RPAD_LUT T i \<le> 46340"
    and "run T W cs startup = Some s"
  shows "path_of s \<noteq> Fallthrough"
proof -
  have "(0 \<le> LPAD_FFT_distance s \<and> LPAD_FFT_distance s \<le> 46340)
    \<and> (0 \<le> RPAD_FFT_distance s \<and> RPAD_FFT_distance s \<le> 46340)"
    using run_distances_bounded [OF assms(1,2) _ _ assms(3)] by (simp add: startup_def)
  then show ?thesis
    unfolding path_of_def using bounded_not_Fallthrough by blast
qed

text \<open>
  Outside these bounds the fall through is taken: with a negative distance on both pads,
  and with distances so large that the denominators wrap around.
\<close>

lemma cos_of_negative: "cos_alpha_of (- 50) (- 50) = Fin (- 1 / 2)"
  "cos_beta_of (- 50) (- 50) = Fin (- 1 / 2)"
  by (simp_all add: cos_defs)

lemma arccos_minus_half_obtuse: "\<not> arccos (- 1 / 2) < pi / 2"
  using arccos_lt_half_pi [of "- 1 / 2"] by simp

lemma negative_entries_fall_through: "pos_path (- 50) (- 50) = Fallthrough"
  using arccos_minus_half_obtuse
  by (simp add: pos_path_def cos_of_negative acos_range_check_def Let_def)

lemma cos_of_wrapped: "cos_alpha_of 21474837 21474837 = Fin (- 625 / 536870899)"
  "cos_beta_of 21474837 21474837 = Fin (- 625 / 536870899)"
  by (simp_all add: cos_defs)

lemma arccos_wrapped_obtuse: "\<not> arccos (- 625 / 536870899) < pi / 2"
  using arccos_lt_half_pi [of "- 625 / 536870899"] by simp

lemma wrapped_products_fall_through: "pos_path 21474837 21474837 = Fallthrough"
  using arccos_wrapped_obtuse
  by (simp add: pos_path_def cos_of_wrapped acos_range_check_def Let_def)

text \<open>
  With both distances at -50 the range check passes, none of the three cases applies, and
  the position stage computes the angle from the X\_Pos and Y\_Pos that it finds.
\<close>

lemma position_stage_fall_through:
  assumes "LPAD_FFT_distance s = - 50" "RPAD_FFT_distance s = - 50"
  shows "position_stage s =
    check_display_bounderies (calculate_current
      (s\<lparr>Gamma := (atan2 (real_of_int (Y_Pos s)) (real_of_int (X_Pos s)) - pi / 2) * RAD_TO_DEGREE\<rparr>))"
  using assms arccos_minus_half_obtuse
  by (simp add: position_stage_def cos_of_negative acos_range_check_def triangulate_def locate_def
      Let_def)

lemma negative_cycle:
  "calculate_pos negative_tables 1 True (1200, 1200, 100, 50) startup =
     Some (startup\<lparr>LPAD_FFT_avg_array := (\<lambda>_. 0)(0 := 1200),
        RPAD_FFT_avg_array := (\<lambda>_. 0)(0 := 1200),
        LHALL_FFT_avg_array := (\<lambda>_. 0)(0 := 100),
        RHALL_FFT_avg_array := (\<lambda>_. 0)(0 := 50),
        LPAD_FFT_distance := - 50, RPAD_FFT_distance := - 50,
        LHALL_FFT_voltage := 100, RHALL_FFT_voltage := 50,
        X_Pos := 2333, Y_Pos := 2222,
        Gamma := (arctan (2222 / 2333) - pi / 2) * RAD_TO_DEGREE,
        current := 4444, num_of_samples := 1\<rparr>)"
  apply (simp add: calculate_pos_filled startup_def)
  apply (simp add: begin_cycle_def store_tones_def average_slots_def distance_LUT_def
      pad_distance_def c_div_def negative_tables_def)
  apply (simp add: position_stage_fall_through atan2_def calculate_current_def
      check_display_bounderies_def)
  done

text \<open>
  When one of the three cases applies, locate assigns X\_Pos and Y\_Pos before it reads
  them: the estimate does not depend on the values found.
\<close>

lemma locate_assigns:
  "\<not> (pi / 2 \<le> a \<and> pi / 2 \<le> b) \<Longrightarrow>
     estimate (locate a b (s\<lparr>X_Pos := x, Y_Pos := y\<rparr>)) = estimate (locate a b s)"
  by (auto simp add: locate_def Let_def estimate_def)

text \<open>The position stage by cases, on the distances of its result.\<close>

lemma position_stage_result:
  assumes "s' = position_stage s"
  shows "(LPAD_FFT_distance s' \<noteq> FFT_NO_SIGNAL \<or> RPAD_FFT_distance s' \<noteq> FFT_NO_SIGNAL)
        \<and> range_check_of s' \<longrightarrow>
      s' = check_display_bounderies (calculate_current
             (locate (d_acos (cos_alpha_of (LPAD_FFT_distance s') (RPAD_FFT_distance s')))
                (d_acos (cos_beta_of (LPAD_FFT_distance s') (RPAD_FFT_distance s'))) s))"
    and "\<not> ((LPAD_FFT_distance s' \<noteq> FFT_NO_SIGNAL \<or> RPAD_FFT_distance s' \<noteq> FFT_NO_SIGNAL)
        \<and> range_check_of s') \<longrightarrow> s' = s"
  unfolding assms
  by (simp_all add: range_check_of_def)
    (auto simp add: position_stage_def triangulate_def Let_def)

lemma calibration_keeps_estimate:
  "estimate (distance_LUT T (average_slots s)) = estimate s"
  "current (distance_LUT T (average_slots s)) = current s"
  by (simp_all add: estimate_def distance_LUT_def average_slots_def Let_def)

section \<open>The claims\<close>

text \<open>
  Claim C1, as amended. In every acquisition cycle in which the range check of the two
  cosines fails, calculate\_pos leaves the three error codes in the position estimate:
  X\_Pos is CALC\_OUTOF\_X\_RANGE, Y\_Pos is CALC\_OUTOF\_Y\_RANGE and Gamma is
  CALC\_OUTOF\_ANGLE\_RANGE, whatever the estimate was before the call.
\<close>

theorem domain_failure_sets_sentinels:
  assumes "calculate_pos T W True t s = Some s'"
    and "path_of s' = Domain_fail"
  shows "X_Pos s' = CALC_OUTOF_X_RANGE \<and> Y_Pos s' = CALC_OUTOF_Y_RANGE
    \<and> Gamma s' = real_of_int CALC_OUTOF_ANGLE_RANGE"
  using failed_solve_keeps_current [OF assms(1)] assms(2) by (simp add: estimate_def)

theorem domain_failure_sets_sentinels_witness:
  "map_option estimate (calculate_pos sample_tables 1 True (100, 1200, 100, 50) published_state)
     = Some (2333, 2222, 2444)"
proof -
  let ?s' = "published_state\<lparr>LPAD_FFT_avg_array := (\<lambda>_. 0)(0 := 100),
        LPAD_FFT_distance := 1111, X_Pos := 2333, Y_Pos := 2222, Gamma := 2444\<rparr>"
  have "X_Pos ?s' = CALC_OUTOF_X_RANGE \<and> Y_Pos ?s' = CALC_OUTOF_Y_RANGE
    \<and> Gamma ?s' = real_of_int CALC_OUTOF_ANGLE_RANGE"
    using one_pad_silent_cycle one_pad_silent_path by (rule domain_failure_sets_sentinels)
  then show ?thesis
    by (simp only: one_pad_silent_cycle option.map estimate_def) simp
qed

text \<open>
  Claim C1 as stated fails: it has the estimate of before the call retained. After a first
  call at startup the estimate is (0, 16, 0); in the next call the left pad is below the
  calibration floor, the range check fails, and the estimate is (2333, 2222, 2444).
\<close>

theorem domain_failure_overwrites_estimate:
  "calculate_pos sample_tables 1 True (1200, 1200, 100, 50) startup = Some published_state
   \<and> estimate published_state = (0, 16, 0)
   \<and> map_option path_of (calculate_pos sample_tables 1 True (100, 1200, 100, 50) published_state)
       = Some Domain_fail
   \<and> map_option estimate (calculate_pos sample_tables 1 True (100, 1200, 100, 50) published_state)
       = Some (2333, 2222, 2444)
   \<and> map_option estimate (calculate_pos sample_tables 1 True (100, 1200, 100, 50) published_state)
       \<noteq> Some (estimate published_state)"
  using first_cycle one_pad_silent_path
  by (simp add: one_pad_silent_cycle) (simp add: estimate_def published_state_def)

text \<open>
  Claim C2. The calibration gives the table entry for a magnitude strictly between the
  bounds, 0 above Max and the no-signal code at or below Min (lemmas
  \<open>pad_distance_inside\<close>, \<open>pad_distance_above\<close>, \<open>pad_distance_below\<close>). At the
  boundary the code departs from the claim: a magnitude equal to Max (1458 on the left
  pad, 1466 on the right) gives FFT\_NO\_SIGNAL and not 0, because the second test of
  distance\_LUT is \<^verbatim>\<open>> Max\<close>.
\<close>

theorem pad_distance_at_Max:
  "pad_distance lut PAD_Min PAD_Max PAD_Max = FFT_NO_SIGNAL
   \<and> LPAD_FFT_distance (distance_LUT T (s\<lparr>LPAD_FFT_distance := 1458\<rparr>)) = 1111
   \<and> RPAD_FFT_distance (distance_LUT T (s\<lparr>RPAD_FFT_distance := 1466\<rparr>)) = 1111"
  by (simp add: pad_distance_def distance_LUT_def)

text \<open>
  Claim C3, as amended. For a window size of 1, 2 or 3, a cycle with data ready whose fill
  index is not W - 1 increments the index, does not run the calibration, and leaves the
  calibrated distances and the Hall averages unchanged. The position stage does run again,
  on these unchanged values; X\_Pos, Y\_Pos, Gamma and the current come out as they were
  whenever the state before the call was itself left by a call with data ready.
\<close>

theorem unfilled_window_frame:
  assumes "W \<in> {1, 2, 3}" "0 \<le> avg_counter s" "avg_counter s < FFT_AVG_NUMS"
    and "avg_counter s \<noteq> W - 1"
  shows "\<exists>s'. calculate_pos T W True t s = Some s'
     \<and> avg_counter s' = avg_counter s + 1
     \<and> LPAD_FFT_distance s' = LPAD_FFT_distance s \<and> RPAD_FFT_distance s' = RPAD_FFT_distance s
     \<and> LHALL_FFT_voltage s' = LHALL_FFT_voltage s \<and> RHALL_FFT_voltage s' = RHALL_FFT_voltage s
     \<and> s' = position_stage ((store_tones t (begin_cycle W s))\<lparr>avg_counter := avg_counter s + 1\<rparr>)
     \<and> (\<forall>T0 W0 t0 s0. calculate_pos T0 W0 True t0 s0 = Some s \<longrightarrow>
          estimate s' = estimate s \<and> current s' = current s)"
proof -
  let ?s2 = "(store_tones t (begin_cycle W s))\<lparr>avg_counter := avg_counter s + 1\<rparr>"
  have c: "calculate_pos T W True t s = Some (position_stage ?s2)"
    using assms by (intro calculate_pos_unfilled) simp_all
  have fr: "LPAD_FFT_distance ?s2 = LPAD_FFT_distance s" "RPAD_FFT_distance ?s2 = RPAD_FFT_distance s"
    "LHALL_FFT_voltage ?s2 = LHALL_FFT_voltage s" "RHALL_FFT_voltage ?s2 = RHALL_FFT_voltage s"
    "X_Pos ?s2 = CALC_OUTOF_X_RANGE" "Y_Pos ?s2 = CALC_OUTOF_Y_RANGE"
    "Gamma ?s2 = real_of_int CALC_OUTOF_ANGLE_RANGE" "current ?s2 = current s"
    "avg_counter ?s2 = avg_counter s + 1"
    by (cases t; simp add: store_tones_def begin_cycle_def)+
  have pub: "estimate (position_stage ?s2) = estimate s \<and> current (position_stage ?s2) = current s"
    if h: "calculate_pos T0 W0 True t0 s0 = Some s" for T0 W0 t0 s0
  proof -
    obtain s1 where s1: "s = position_stage s1" "X_Pos s1 = CALC_OUTOF_X_RANGE"
      "Y_Pos s1 = CALC_OUTOF_Y_RANGE" "Gamma s1 = real_of_int CALC_OUTOF_ANGLE_RANGE"
      using h by (rule calculate_pos_ready)
    have "same_inputs ?s2 s1"
      unfolding same_inputs_def using fr s1 by simp
    from same_inputs_position_stage [OF this] show ?thesis
      using s1(1) fr(8) by auto
  qed
  show ?thesis
    using c fr pub by (intro exI [of _ "position_stage ?s2"]) (simp; blast)
qed

theorem unfilled_window_frame_witness:
  "map_option estimate (calculate_pos sample_tables 3 True (5, 6, 7, 8) published_state)
     = Some (0, 16, 0)
   \<and> map_option current (calculate_pos sample_tables 3 True (5, 6, 7, 8) published_state)
     = Some (4791573 / 8388608)
   \<and> map_option avg_counter (calculate_pos sample_tables 3 True (5, 6, 7, 8) published_state)
     = Some 1"
proof -
  have h: "(3::int) \<in> {1, 2, 3}" "0 \<le> avg_counter published_state"
    "avg_counter published_state < FFT_AVG_NUMS" "avg_counter published_state \<noteq> 3 - 1"
    by (simp_all add: published_state_def)
  obtain s' where s': "calculate_pos sample_tables 3 True (5, 6, 7, 8) published_state = Some s'"
    "avg_counter s' = avg_counter published_state + 1"
    "\<forall>T0 W0 t0 s0. calculate_pos T0 W0 True t0 s0 = Some published_state \<longrightarrow>
          estimate s' = estimate published_state \<and> current s' = current published_state"
    using unfilled_window_frame [OF h, of sample_tables "(5, 6, 7, 8)"] by blast
  from s'(3) first_cycle have "estimate s' = estimate published_state"
    "current s' = current published_state" by blast+
  with s'(1,2) show ?thesis
    by (simp add: estimate_def published_state_def)
qed

text \<open>
  Claim C3 as stated fails. At startup the first call of calculate\_pos(3) does not fill the
  window, and X\_Pos, Y\_Pos and Gamma go from 0 to their error codes. After a published
  estimate, a call that does not fill the window still runs the position stage: the
  estimate is (2333, 2222, 2444) when calculate\_FFT returns, the first case of the
  triangulation is taken, and the estimate is (0, 16, 0) again at the end of the call.
\<close>

theorem startup_estimate_overwritten:
  "avg_counter startup \<noteq> 3 - 1 \<and> estimate startup = (0, 0, 0)
   \<and> map_option estimate (calculate_pos sample_tables 3 True (1200, 1200, 100, 50) startup)
       = Some (2333, 2222, 2444)
   \<and> map_option avg_counter (calculate_pos sample_tables 3 True (1200, 1200, 100, 50) startup)
       = Some 1
   \<and> avg_counter published_state \<noteq> 3 - 1
   \<and> map_option estimate (calculate_FFT sample_tables (5, 6, 7, 8) (begin_cycle 3 published_state))
       = Some (2333, 2222, 2444)
   \<and> map_option path_of (calculate_pos sample_tables 3 True (5, 6, 7, 8) published_state)
       = Some Case1
   \<and> map_option estimate (calculate_pos sample_tables 3 True (5, 6, 7, 8) published_state)
       = Some (0, 16, 0)"
proof -
  have c: "avg_counter startup = 0" by (simp add: startup_def)
  have "\<not> range_check_of
      ((store_tones (1200, 1200, 100, 50) (begin_cycle 3 startup))\<lparr>avg_counter := avg_counter startup + 1\<rparr>)"
    by (simp add: range_check_of_def store_tones_def begin_cycle_def startup_def
        acos_range_check_def cos_defs)
  then have 1: "avg_counter startup \<noteq> 3 - 1 \<and> estimate startup = (0, 0, 0)
   \<and> map_option estimate (calculate_pos sample_tables 3 True (1200, 1200, 100, 50) startup)
       = Some (2333, 2222, 2444)
   \<and> map_option avg_counter (calculate_pos sample_tables 3 True (1200, 1200, 100, 50) startup)
       = Some 1"
    by (simp add: calculate_pos_unfilled c position_stage_no_check)
      (simp add: estimate_def store_tones_def begin_cycle_def startup_def)
  have 2: "avg_counter published_state \<noteq> 3 - 1
    \<and> map_option estimate (calculate_FFT sample_tables (5, 6, 7, 8) (begin_cycle 3 published_state))
       = Some (2333, 2222, 2444)"
    by (simp add: calculate_FFT_def averaging_FFT_semples_def begin_cycle_def published_state_def
        estimate_def)
  have p: "pos_path 30 30 = Case1"
    using arccos_5_6_acute by (simp add: pos_path_def cos_of_30_30 acos_range_check_def Let_def)
  have 3: "map_option path_of (calculate_pos sample_tables 3 True (5, 6, 7, 8) published_state)
       = Some Case1
     \<and> map_option estimate (calculate_pos sample_tables 3 True (5, 6, 7, 8) published_state)
       = Some (0, 16, 0)"
    apply (simp add: calculate_pos_unfilled published_state_def)
    apply (simp add: path_of_def store_tones_def begin_cycle_def p)
    apply (simp add: position_stage_30_30 estimate_def calculate_current_def
        check_display_bounderies_def)
    done
  from 1 2 3 show ?thesis by blast
qed

text \<open>
  Claim C4. When the position solve does not succeed, the code leaves the current of an
  earlier cycle in place, where the claim has one of the two current error codes. A first
  call at startup computes a current of 4791573 / 8388608 (100 * 0.357 * 16 / 1000 = 0.5712
  rounded to a float); in the next call both pads are below the calibration floor, the
  triangulation is skipped, the estimate holds its error codes, and the current is still
  4791573 / 8388608 (lemma \<open>failed_solve_keeps_current\<close> for every such call).
\<close>

theorem stale_current_after_failed_solve:
  "calculate_pos sample_tables 1 True (1200, 1200, 100, 50) startup = Some published_state
   \<and> current published_state = 4791573 / 8388608
   \<and> map_option path_of (calculate_pos sample_tables 1 True (0, 0, 100, 50) published_state)
       = Some Skipped
   \<and> map_option estimate (calculate_pos sample_tables 1 True (0, 0, 100, 50) published_state)
       = Some (2333, 2222, 2444)
   \<and> map_option current (calculate_pos sample_tables 1 True (0, 0, 100, 50) published_state)
       = Some (4791573 / 8388608)"
proof -
  have e: "calculate_pos sample_tables 1 True (0, 0, 100, 50) published_state =
     Some (published_state\<lparr>LPAD_FFT_avg_array := (\<lambda>_. 0)(0 := 0),
        RPAD_FFT_avg_array := (\<lambda>_. 0)(0 := 0),
        LPAD_FFT_distance := 1111, RPAD_FFT_distance := 1111,
        X_Pos := 2333, Y_Pos := 2222, Gamma := 2444\<rparr>)"
    apply (simp add: calculate_pos_filled published_state_def)
    apply (simp add: begin_cycle_def store_tones_def average_slots_def distance_LUT_def
      pad_distance_def c_div_def sample_tables_def sample_lut_def)
    apply (simp add: position_stage_def)
    done
  show ?thesis
    using first_cycle
    by (simp add: e) (simp add: estimate_def published_state_def path_of_def pos_path_def)
qed

text \<open>
  Claim C5, as amended. With Y\_Pos in (15, 25) and Gamma in (-15, 15), calculate\_current
  stores the float to which the double-precision evaluation of
  max(left Hall, right Hall) * CURRENT\_FACTOR * Y\_Pos / 1000 rounds (the literal 0.357, the two
  products and the quotient each round to a double, the assignment rounds to a float); the
  stored value is within a relative error of \<open>1 / 2 ^ 23\<close> of the product over the reals.
  With Y\_Pos outside (15, 25) it stores CURR\_OUTOF\_Y\_RANGE whatever the angle; with Y\_Pos
  inside and Gamma outside (-15, 15) it stores CURR\_OUTOF\_Angle\_RANGE.
\<close>

theorem calculate_current_rounded_cases:
  "(15 < Y_Pos s \<and> Y_Pos s < 25 \<and> - 15 < Gamma s \<and> Gamma s < 15 \<longrightarrow>
      current (calculate_current s) =
        hall_current (max (LHALL_FFT_voltage s) (RHALL_FFT_voltage s)) (Y_Pos s)
      \<and> \<bar>current (calculate_current s)
          - real_of_int (max (LHALL_FFT_voltage s) (RHALL_FFT_voltage s)) * CURRENT_FACTOR
              * real_of_int (Y_Pos s) / 1000\<bar>
        \<le> \<bar>real_of_int (max (LHALL_FFT_voltage s) (RHALL_FFT_voltage s)) * CURRENT_FACTOR
              * real_of_int (Y_Pos s) / 1000\<bar> / 2 ^ 23)
   \<and> (\<not> (15 < Y_Pos s \<and> Y_Pos s < 25) \<longrightarrow>
        current (calculate_current s) = real_of_int CURR_OUTOF_Y_RANGE)
   \<and> (15 < Y_Pos s \<and> Y_Pos s < 25 \<and> \<not> (- 15 < Gamma s \<and> Gamma s < 15) \<longrightarrow>
        current (calculate_current s) = real_of_int CURR_OUTOF_Angle_RANGE)"
proof -
  have "current (calculate_current s) =
      hall_current (max (LHALL_FFT_voltage s) (RHALL_FFT_voltage s)) (Y_Pos s)"
    if "15 < Y_Pos s" "Y_Pos s < 25" "- 15 < Gamma s" "Gamma s < 15"
    using that by (simp add: calculate_current_def max_def)
  moreover have "\<not> (15 < Y_Pos s \<and> Y_Pos s < 25) \<longrightarrow>
        current (calculate_current s) = real_of_int CURR_OUTOF_Y_RANGE"
    by (simp add: calculate_current_def)
  moreover have "15 < Y_Pos s \<and> Y_Pos s < 25 \<and> \<not> (- 15 < Gamma s \<and> Gamma s < 15) \<longrightarrow>
        current (calculate_current s) = real_of_int CURR_OUTOF_Angle_RANGE"
    by (auto simp add: calculate_current_def)
  ultimately show ?thesis
    using hall_current_error [of "max (LHALL_FFT_voltage s) (RHALL_FFT_voltage s)" "Y_Pos s"]
    by simp
qed

theorem calculate_current_rounded_cases_witness:
  "current (calculate_current
      (startup\<lparr>Y_Pos := 20, Gamma := 0, LHALL_FFT_voltage := 100, RHALL_FFT_voltage := 50\<rparr>))
     = 2994733 / 4194304
   \<and> \<bar>2994733 / 4194304 - 0.714\<bar> \<le> (0.714 :: real) / 2 ^ 23
   \<and> current (calculate_current (startup\<lparr>Y_Pos := 30, Gamma := 0\<rparr>)) = 4444
   \<and> current (calculate_current (startup\<lparr>Y_Pos := 30, Gamma := 20\<rparr>)) = 4444
   \<and> current (calculate_current (startup\<lparr>Y_Pos := 20, Gamma := 20\<rparr>)) = 4555"
  using calculate_current_rounded_cases [of "startup\<lparr>Y_Pos := 20, Gamma := 0, LHALL_FFT_voltage := 100, RHALL_FFT_voltage := 50\<rparr>"]
    calculate_current_rounded_cases [of "startup\<lparr>Y_Pos := 30, Gamma := 0\<rparr>"]
    calculate_current_rounded_cases [of "startup\<lparr>Y_Pos := 30, Gamma := 20\<rparr>"]
    calculate_current_rounded_cases [of "startup\<lparr>Y_Pos := 20, Gamma := 20\<rparr>"]
  by (simp add: startup_def hall_current_100_20 CURRENT_FACTOR_def)

text \<open>
  Claim C5 as stated fails in its numeric branch: the variable is a float and the operations
  round. In the example of the claim (Y\_Pos 20, Gamma 0, Hall readings 100 and 50) the value
  stored is 2994733 / 4194304, the float below 0.714, and not the product
  100 * 0.357 * 20 / 1000 = 0.714 itself, which no float equals.
\<close>

theorem rounded_current_differs:
  "current (calculate_current
      (startup\<lparr>Y_Pos := 20, Gamma := 0, LHALL_FFT_voltage := 100, RHALL_FFT_voltage := 50\<rparr>))
     = 2994733 / 4194304
   \<and> current (calculate_current
      (startup\<lparr>Y_Pos := 20, Gamma := 0, LHALL_FFT_voltage := 100, RHALL_FFT_voltage := 50\<rparr>))
     \<noteq> real_of_int (max 100 50) * CURRENT_FACTOR * real_of_int 20 / 1000
   \<and> real_of_int (max 100 50) * CURRENT_FACTOR * real_of_int 20 / 1000 = 0.714"
  by (simp add: calculate_current_def startup_def hall_current_100_20 CURRENT_FACTOR_def)

text \<open>
  Claim C6. For a window size W of 1, 2 or 3 and a fill index of 0, W calls with data ready
  store the W readings in the slots 0 to W - 1, reset the index to 0, and publish for each
  Hall channel the accumulated sum of the W slots divided by W with truncation towards
  zero; the pad averages, computed the same way, go through the calibration, and the
  position stage runs on the result: when the calibrated distances pass the no-signal guard
  and the range check, the state published is that of locate, then calculate\_current, then
  check\_display\_bounderies on the calibrated averages; otherwise it is the calibrated
  averages themselves, with the error codes in the estimate and the current of before.
  The accumulated sum is the signed 32-bit accumulator of the code: where it is not
  negative the quotient is the floor, and where the W slots add up to less than
  \<open>2 ^ 31\<close> it is the floor of their sum divided by W.
\<close>

theorem window_fill_publishes_average:
  assumes "W \<in> {1, 2, 3}" "length ts = nat W" "avg_counter s = 0"
  shows "\<exists>s' s1. run T W (map (Pair True) ts) s = Some s'
     \<and> avg_counter s' = 0
     \<and> (\<forall>i<nat W. slots s' i = ts ! i)
     \<and> LHALL_FFT_voltage s' = c_div (sum_slots (LHALL_FFT_avg_array s') (nat W)) W
     \<and> RHALL_FFT_voltage s' = c_div (sum_slots (RHALL_FFT_avg_array s') (nat W)) W
     \<and> LPAD_FFT_distance s' =
          pad_distance (LPAD_LUT T) LPAD_Min LPAD_Max
            (c_div (sum_slots (LPAD_FFT_avg_array s') (nat W)) W)
     \<and> RPAD_FFT_distance s' =
          pad_distance (RPAD_LUT T) RPAD_Min RPAD_Max
            (c_div (sum_slots (RPAD_FFT_avg_array s') (nat W)) W)
     \<and> s' = position_stage (distance_LUT T (average_slots s1))
     \<and> estimate s1 = (CALC_OUTOF_X_RANGE, CALC_OUTOF_Y_RANGE, real_of_int CALC_OUTOF_ANGLE_RANGE)
     \<and> ((LPAD_FFT_distance s' \<noteq> FFT_NO_SIGNAL \<or> RPAD_FFT_distance s' \<noteq> FFT_NO_SIGNAL)
          \<and> range_check_of s' \<longrightarrow>
        s' = check_display_bounderies (calculate_current
               (locate (d_acos (cos_alpha_of (LPAD_FFT_distance s') (RPAD_FFT_distance s')))
                  (d_acos (cos_beta_of (LPAD_FFT_distance s') (RPAD_FFT_distance s')))
                  (distance_LUT T (average_slots s1)))))
     \<and> (\<not> ((LPAD_FFT_distance s' \<noteq> FFT_NO_SIGNAL \<or> RPAD_FFT_distance s' \<noteq> FFT_NO_SIGNAL)
          \<and> range_check_of s') \<longrightarrow>
        s' = distance_LUT T (average_slots s1)
        \<and> estimate s' = (CALC_OUTOF_X_RANGE, CALC_OUTOF_Y_RANGE, real_of_int CALC_OUTOF_ANGLE_RANGE)
        \<and> current s' = current s1)
     \<and> (\<forall>arr. 0 \<le> sum_slots arr (nat W) \<longrightarrow>
           c_div (sum_slots arr (nat W)) W = sum_slots arr (nat W) div W)
     \<and> (\<forall>arr. (\<Sum>i<nat W. unat (arr i)) < 2 ^ 31 \<longrightarrow>
           c_div (sum_slots arr (nat W)) W = spec_average arr W)"
proof -
  have W: "0 < W" using assms(1) by auto
  obtain s' where s': "run T W (map (Pair True) ts) s = Some s'" "avg_counter s' = 0"
    "\<forall>i<nat W. slots s' i = ts ! i" "published_average T W s'"
    using run_window [OF assms] by blast
  from s'(4) obtain s1 where s1: "s' = position_stage (distance_LUT T (average_slots s1))"
    "estimate s1 = (CALC_OUTOF_X_RANGE, CALC_OUTOF_Y_RANGE, real_of_int CALC_OUTOF_ANGLE_RANGE)"
    unfolding published_average_def by blast
  have a: "\<forall>arr. 0 \<le> sum_slots arr (nat W) \<longrightarrow>
           c_div (sum_slots arr (nat W)) W = sum_slots arr (nat W) div W"
    using W by (simp add: c_div_floor)
  have b: "\<forall>arr. (\<Sum>i<nat W. unat (arr i)) < 2 ^ 31 \<longrightarrow>
           c_div (sum_slots arr (nat W)) W = spec_average arr W"
    using W average_refines_spec by blast
  from s'(4) have p: "LHALL_FFT_voltage s' = c_div (sum_slots (LHALL_FFT_avg_array s') (nat W)) W"
    "RHALL_FFT_voltage s' = c_div (sum_slots (RHALL_FFT_avg_array s') (nat W)) W"
    "LPAD_FFT_distance s' =
          pad_distance (LPAD_LUT T) LPAD_Min LPAD_Max
            (c_div (sum_slots (LPAD_FFT_avg_array s') (nat W)) W)"
    "RPAD_FFT_distance s' =
          pad_distance (RPAD_LUT T) RPAD_Min RPAD_Max
            (c_div (sum_slots (RPAD_FFT_avg_array s') (nat W)) W)"
    unfolding published_average_def by blast+
  note ps = position_stage_result [OF s1(1)]
  have q: "\<not> ((LPAD_FFT_distance s' \<noteq> FFT_NO_SIGNAL \<or> RPAD_FFT_distance s' \<noteq> FFT_NO_SIGNAL)
          \<and> range_check_of s') \<longrightarrow>
        s' = distance_LUT T (average_slots s1)
        \<and> estimate s' = (CALC_OUTOF_X_RANGE, CALC_OUTOF_Y_RANGE, real_of_int CALC_OUTOF_ANGLE_RANGE)
        \<and> current s' = current s1"
    using ps(2) s1(2) calibration_keeps_estimate [of T s1] by auto
  show ?thesis
    apply (rule exI [of _ s'])
    apply (rule exI [of _ s1])
    apply (intro conjI)
    apply (rule s'(1))
    apply (rule s'(2))
    apply (rule s'(3))
    apply (rule p(1))
    apply (rule p(2))
    apply (rule p(3))
    apply (rule p(4))
    apply (rule s1(1))
    apply (rule s1(2))
    apply (rule ps(1))
    apply (rule q)
    apply (rule a)
    apply (rule b)
    done
qed

theorem window_fill_publishes_average_witness:
  "map_option avg_counter
     (run sample_tables 2 (map (Pair True) [(1100, 1100, 100, 50), (1300, 1300, 101, 50)]) startup)
     = Some 0
   \<and> map_option LHALL_FFT_voltage
     (run sample_tables 2 (map (Pair True) [(1100, 1100, 100, 50), (1300, 1300, 101, 50)]) startup)
     = Some 100
   \<and> map_option RHALL_FFT_voltage
     (run sample_tables 2 (map (Pair True) [(1100, 1100, 100, 50), (1300, 1300, 101, 50)]) startup)
     = Some 50
   \<and> map_option LPAD_FFT_distance
     (run sample_tables 2 (map (Pair True) [(1100, 1100, 100, 50), (1300, 1300, 101, 50)]) startup)
     = Some 30
   \<and> map_option RPAD_FFT_distance
     (run sample_tables 2 (map (Pair True) [(1100, 1100, 100, 50), (1300, 1300, 101, 50)]) startup)
     = Some 30
   \<and> map_option estimate
     (run sample_tables 2 (map (Pair True) [(1100, 1100, 100, 50), (1300, 1300, 101, 50)]) startup)
     = Some (0, 16, 0)
   \<and> map_option current
     (run sample_tables 2 (map (Pair True) [(1100, 1100, 100, 50), (1300, 1300, 101, 50)]) startup)
     = Some (4791573 / 8388608)"
proof -
  let ?ts = "[(1100, 1100, 100, 50), (1300, 1300, 101, 50)] :: tones list"
  have h: "(2::int) \<in> {1, 2, 3}" "length ?ts = nat 2" "avg_counter startup = 0"
    by (simp_all add: startup_def)
  obtain s' s1 where s': "run sample_tables 2 (map (Pair True) ?ts) startup = Some s'"
    "avg_counter s' = 0" "\<forall>i<nat 2. slots s' i = ?ts ! i"
    "LHALL_FFT_voltage s' = c_div (sum_slots (LHALL_FFT_avg_array s') (nat 2)) 2"
    "RHALL_FFT_voltage s' = c_div (sum_slots (RHALL_FFT_avg_array s') (nat 2)) 2"
    "LPAD_FFT_distance s' =
          pad_distance (LPAD_LUT sample_tables) LPAD_Min LPAD_Max
            (c_div (sum_slots (LPAD_FFT_avg_array s') (nat 2)) 2)"
    "RPAD_FFT_distance s' =
          pad_distance (RPAD_LUT sample_tables) RPAD_Min RPAD_Max
            (c_div (sum_slots (RPAD_FFT_avg_array s') (nat 2)) 2)"
    "(LPAD_FFT_distance s' \<noteq> FFT_NO_SIGNAL \<or> RPAD_FFT_distance s' \<noteq> FFT_NO_SIGNAL)
          \<and> range_check_of s' \<longrightarrow>
        s' = check_display_bounderies (calculate_current
               (locate (d_acos (cos_alpha_of (LPAD_FFT_distance s') (RPAD_FFT_distance s')))
                  (d_acos (cos_beta_of (LPAD_FFT_distance s') (RPAD_FFT_distance s')))
                  (distance_LUT sample_tables (average_slots s1))))"
    "s' = position_stage (distance_LUT sample_tables (average_slots s1))"
    using window_fill_publishes_average [OF h, of sample_tables] by blast
  from s'(3) have "slots s' 0 = (1100, 1100, 100, 50)" "slots s' (Suc 0) = (1300, 1300, 101, 50)"
    by simp_all
  then have sl: "LPAD_FFT_avg_array s' 0 = 1100" "LPAD_FFT_avg_array s' (Suc 0) = 1300"
    "RPAD_FFT_avg_array s' 0 = 1100" "RPAD_FFT_avg_array s' (Suc 0) = 1300"
    "LHALL_FFT_avg_array s' 0 = 100" "LHALL_FFT_avg_array s' (Suc 0) = 101"
    "RHALL_FFT_avg_array s' 0 = 50" "RHALL_FFT_avg_array s' (Suc 0) = 50"
    by (simp_all add: slots_def)
  have n: "nat 2 = Suc (Suc 0)" by simp
  have sums: "sum_slots (LHALL_FFT_avg_array s') (nat 2) = 201"
    "sum_slots (RHALL_FFT_avg_array s') (nat 2) = 100"
    "sum_slots (LPAD_FFT_avg_array s') (nat 2) = 2400"
    "sum_slots (RPAD_FFT_avg_array s') (nat 2) = 2400"
    unfolding n by (simp_all add: sl)
  have v: "LHALL_FFT_voltage s' = 100" "RHALL_FFT_voltage s' = 50" "LPAD_FFT_distance s' = 30"
    "RPAD_FFT_distance s' = 30"
    unfolding s'(4,5,6,7) sums
    by (simp_all add: c_div_def pad_distance_def sample_tables_def sample_lut_def)
  define s2 where "s2 = distance_LUT sample_tables (average_slots s1)"
  have rc: "range_check_of s'"
    by (simp add: range_check_of_def v cos_of_30_30 acos_range_check_def)
  have e: "s' = check_display_bounderies (calculate_current
      (locate (arccos (5 / 6)) (arccos (5 / 6)) s2))"
    using s'(8) rc by (simp add: v cos_of_30_30 s2_def)
  have d: "LPAD_FFT_distance s2 = 30" "RPAD_FFT_distance s2 = 30" "LHALL_FFT_voltage s2 = 100"
    "RHALL_FFT_voltage s2 = 50"
    using v s'(9) by (simp_all add: s2_def)
  have l: "estimate (locate (arccos (5 / 6)) (arccos (5 / 6)) s2) = (0, 16, 0)"
    using d arccos_5_6_acute
    by (simp add: estimate_def locate_def Let_def c_div_def c_trunc_sin_30 c_trunc_zero atan2_ahead)
  have "estimate s' = (0, 16, 0)" "current s' = 4791573 / 8388608"
    using l d(3,4) unfolding e
    by (simp_all add: estimate_def calculate_current_def check_display_bounderies_def
        hall_current_100_16)
  then show ?thesis
    using s'(1,2) v by simp
qed

text \<open>
  Claim C7, as amended. The code has no branch of its own for the fourth case (both angles
  at least a right angle): it is what remains when none of the three conditions of the
  if / else-if chain holds, and X\_Pos and Y\_Pos then keep the values found. For calibrated
  distances between 0 and 46340 (so that no 32-bit operation of the law of cosines wraps
  around) that pass the no-signal guard and the range check, the two angles are not both at
  least a right angle: the branch taken is one of the three cases, the position stage is
  the triangulation on these angles, and the estimate that locate computes does not depend
  on the X\_Pos and Y\_Pos found, since one of the three cases assigns them first. The
  distances are 0, FFT\_NO\_SIGNAL or a table entry, so they are within these bounds in
  every reachable state when the tables are (lemma \<open>reachable_never_falls_through\<close>).
\<close>

theorem fourth_case_unreachable_in_range:
  assumes "0 \<le> LPAD_FFT_distance s" "LPAD_FFT_distance s \<le> 46340"
    and "0 \<le> RPAD_FFT_distance s" "RPAD_FFT_distance s \<le> 46340"
    and "LPAD_FFT_distance s \<noteq> FFT_NO_SIGNAL \<or> RPAD_FFT_distance s \<noteq> FFT_NO_SIGNAL"
    and "range_check_of s"
  shows "\<not> (d_acos (cos_alpha_of (LPAD_FFT_distance s) (RPAD_FFT_distance s)) \<ge> pi / 2
            \<and> d_acos (cos_beta_of (LPAD_FFT_distance s) (RPAD_FFT_distance s)) \<ge> pi / 2)
     \<and> (path_of s = Case1 \<or> path_of s = Case2 \<or> path_of s = Case3)
     \<and> path_of s \<noteq> Fallthrough
     \<and> position_stage s =
          check_display_bounderies (calculate_current
            (locate (d_acos (cos_alpha_of (LPAD_FFT_distance s) (RPAD_FFT_distance s)))
               (d_acos (cos_beta_of (LPAD_FFT_distance s) (RPAD_FFT_distance s))) s))
     \<and> estimate (locate (d_acos (cos_alpha_of (LPAD_FFT_distance s) (RPAD_FFT_distance s)))
               (d_acos (cos_beta_of (LPAD_FFT_distance s) (RPAD_FFT_distance s)))
               (s\<lparr>X_Pos := x, Y_Pos := y\<rparr>))
         = estimate (locate (d_acos (cos_alpha_of (LPAD_FFT_distance s) (RPAD_FFT_distance s)))
               (d_acos (cos_beta_of (LPAD_FFT_distance s) (RPAD_FFT_distance s))) s)"
proof -
  have rc: "acos_range_check (cos_alpha_of (LPAD_FFT_distance s) (RPAD_FFT_distance s))
      (cos_beta_of (LPAD_FFT_distance s) (RPAD_FFT_distance s))"
    using assms(6) by (simp add: range_check_of_def)
  have first: "\<not> (d_acos (cos_alpha_of (LPAD_FFT_distance s) (RPAD_FFT_distance s)) \<ge> pi / 2
            \<and> d_acos (cos_beta_of (LPAD_FFT_distance s) (RPAD_FFT_distance s)) \<ge> pi / 2)"
    using assms(1-4) rc by (rule angles_not_both_obtuse)
  then have path: "path_of s = Case1 \<or> path_of s = Case2 \<or> path_of s = Case3"
    using assms(5) rc by (auto simp add: path_of_def pos_path_def Let_def)
  have stage: "position_stage s =
          check_display_bounderies (calculate_current
            (locate (d_acos (cos_alpha_of (LPAD_FFT_distance s) (RPAD_FFT_distance s)))
               (d_acos (cos_beta_of (LPAD_FFT_distance s) (RPAD_FFT_distance s))) s))"
    using assms(5) rc by (auto simp add: position_stage_def triangulate_def Let_def)
  from first path stage locate_assigns [OF first] show ?thesis by auto
qed

theorem fourth_case_unreachable_in_range_witness:
  "path_of (begin_cycle 1 (startup\<lparr>LPAD_FFT_distance := 30, RPAD_FFT_distance := 30\<rparr>)) = Case1
   \<and> estimate (position_stage
        (begin_cycle 1 (startup\<lparr>LPAD_FFT_distance := 30, RPAD_FFT_distance := 30\<rparr>)))
       = (0, 16, 0)
   \<and> estimate (locate (arccos (5 / 6)) (arccos (5 / 6))
        (begin_cycle 1 (startup\<lparr>LPAD_FFT_distance := 30, RPAD_FFT_distance := 30\<rparr>)))
       = estimate (locate (arccos (5 / 6)) (arccos (5 / 6))
        (startup\<lparr>LPAD_FFT_distance := 30, RPAD_FFT_distance := 30\<rparr>))"
proof -
  let ?s = "begin_cycle 1 (startup\<lparr>LPAD_FFT_distance := 30, RPAD_FFT_distance := 30\<rparr>)"
  have d: "LPAD_FFT_distance ?s = 30" "RPAD_FFT_distance ?s = 30"
    by (simp_all add: begin_cycle_def)
  have b: "0 \<le> LPAD_FFT_distance ?s" "LPAD_FFT_distance ?s \<le> 46340"
    "0 \<le> RPAD_FFT_distance ?s" "RPAD_FFT_distance ?s \<le> 46340"
    "LPAD_FFT_distance ?s \<noteq> FFT_NO_SIGNAL \<or> RPAD_FFT_distance ?s \<noteq> FFT_NO_SIGNAL"
    by (simp_all add: d)
  have r: "range_check_of ?s"
    by (simp add: range_check_of_def d cos_of_30_30 acos_range_check_def)
  have p: "path_of ?s = Case1"
    using arccos_5_6_acute
    by (simp add: path_of_def d pos_path_def cos_of_30_30 acos_range_check_def Let_def)
  have e: "estimate (position_stage ?s) = (0, 16, 0)"
    unfolding position_stage_30_30 [OF d]
    by (simp add: estimate_def calculate_current_def check_display_bounderies_def)
  have x: "?s\<lparr>X_Pos := 0, Y_Pos := 0\<rparr> =
      (startup\<lparr>LPAD_FFT_distance := 30, RPAD_FFT_distance := 30\<rparr>)\<lparr>Gamma := 2444, num_of_samples := 1\<rparr>"
    by (simp add: begin_cycle_def startup_def)
  have g: "estimate (locate a b (t\<lparr>Gamma := 2444, num_of_samples := 1\<rparr>)) = estimate (locate a b t)"
    for a b t
    by (simp add: estimate_def locate_def Let_def)
  from fourth_case_unreachable_in_range [OF b r, of 0 0]
  have "estimate (locate (arccos (5 / 6)) (arccos (5 / 6)) (?s\<lparr>X_Pos := 0, Y_Pos := 0\<rparr>))
      = estimate (locate (arccos (5 / 6)) (arccos (5 / 6)) ?s)"
    by (simp add: d cos_of_30_30)
  then show ?thesis using p e unfolding x g by simp
qed

text \<open>
  Claim C7 as stated fails for distances outside these bounds, and the code does not treat
  the fourth case as a state of its own. With a calibration whose entries are -50, one
  call at startup passes the no-signal guard and the range check (both cosines are
  \<open>- 1 / 2\<close>), both angles are obtuse, and the call ends with X\_Pos and Y\_Pos at their
  error codes 2333 and 2222, Gamma computed from them (a negative angle, not the error code
  2444) and the current at CURR\_OUTOF\_Y\_RANGE. With both distances at 21474837 the
  denominator \<open>2 * L * 50\<close> wraps around to \<open>- 2147483596\<close>, both cosines are
  \<open>- 625 / 536870899\<close>, and the fall through is taken as well.
\<close>

theorem fourth_case_taken:
  "map_option path_of (calculate_pos negative_tables 1 True (1200, 1200, 100, 50) startup)
     = Some Fallthrough
   \<and> map_option LPAD_FFT_distance (calculate_pos negative_tables 1 True (1200, 1200, 100, 50) startup)
     = Some (- 50)
   \<and> map_option RPAD_FFT_distance (calculate_pos negative_tables 1 True (1200, 1200, 100, 50) startup)
     = Some (- 50)
   \<and> acos_range_check (cos_alpha_of (- 50) (- 50)) (cos_beta_of (- 50) (- 50))
   \<and> d_acos (cos_alpha_of (- 50) (- 50)) \<ge> pi / 2
   \<and> d_acos (cos_beta_of (- 50) (- 50)) \<ge> pi / 2
   \<and> map_option X_Pos (calculate_pos negative_tables 1 True (1200, 1200, 100, 50) startup)
     = Some CALC_OUTOF_X_RANGE
   \<and> map_option Y_Pos (calculate_pos negative_tables 1 True (1200, 1200, 100, 50) startup)
     = Some CALC_OUTOF_Y_RANGE
   \<and> map_option Gamma (calculate_pos negative_tables 1 True (1200, 1200, 100, 50) startup)
     \<noteq> Some (real_of_int CALC_OUTOF_ANGLE_RANGE)
   \<and> map_option current (calculate_pos negative_tables 1 True (1200, 1200, 100, 50) startup)
     = Some (real_of_int CURR_OUTOF_Y_RANGE)
   \<and> acos_range_check (cos_alpha_of 21474837 21474837) (cos_beta_of 21474837 21474837)
   \<and> d_acos (cos_alpha_of 21474837 21474837) \<ge> pi / 2
   \<and> d_acos (cos_beta_of 21474837 21474837) \<ge> pi / 2
   \<and> pos_path 21474837 21474837 = Fallthrough"
proof -
  have o: "pi / 2 \<le> arccos (- 1 / 2)" using arccos_minus_half_obtuse by simp
  have "arctan (2222 / 2333) < pi / 2" by (rule arctan_ubound)
  then have "(arctan (2222 / 2333) - pi / 2) * RAD_TO_DEGREE < 0"
    by (simp add: RAD_TO_DEGREE_def mult_less_0_iff)
  then have g: "(arctan (2222 / 2333) - pi / 2) * RAD_TO_DEGREE \<noteq> 2444"
    by simp
  have w: "pi / 2 \<le> arccos (- 625 / 536870899)" using arccos_wrapped_obtuse by simp
  show ?thesis
    using o g w wrapped_products_fall_through negative_entries_fall_through
    by (simp add: negative_cycle path_of_def cos_of_negative cos_of_wrapped acos_range_check_def)
qed

text \<open>
  Claim C8. The triangulation is skipped exactly when both distances are FFT\_NO\_SIGNAL.
  With exactly one of them FFT\_NO\_SIGNAL the position stage evaluates the law of cosines
  with 1111 in the place of that distance, and triangulates when the range check passes.
  The numerator of the cosine is the 32-bit result of the code; for another distance of
  absolute value at most 46340 no operation wraps and it is the integer expression itself.
\<close>

theorem no_signal_guard:
  "(path_of s = Skipped) =
      (LPAD_FFT_distance s = FFT_NO_SIGNAL \<and> RPAD_FFT_distance s = FFT_NO_SIGNAL)
   \<and> (LPAD_FFT_distance s = FFT_NO_SIGNAL \<and> RPAD_FFT_distance s = FFT_NO_SIGNAL \<longrightarrow>
        position_stage s = s)
   \<and> (LPAD_FFT_distance s = FFT_NO_SIGNAL \<and> RPAD_FFT_distance s \<noteq> FFT_NO_SIGNAL \<longrightarrow>
        position_stage s =
          (if acos_range_check (cos_alpha_of FFT_NO_SIGNAL (RPAD_FFT_distance s))
                (cos_beta_of FFT_NO_SIGNAL (RPAD_FFT_distance s))
           then triangulate (d_acos (cos_alpha_of FFT_NO_SIGNAL (RPAD_FFT_distance s)))
                  (d_acos (cos_beta_of FFT_NO_SIGNAL (RPAD_FFT_distance s))) s
           else s)
        \<and> cos_beta_of FFT_NO_SIGNAL (RPAD_FFT_distance s) =
            Fin (real_of_int
                   (i32 (1111 * 1111 + 50 * 50 - i32 (RPAD_FFT_distance s * RPAD_FFT_distance s)))
                 / real_of_int (2 * 1111 * 50))
        \<and> (\<bar>RPAD_FFT_distance s\<bar> \<le> 46340 \<longrightarrow>
             cos_beta_of FFT_NO_SIGNAL (RPAD_FFT_distance s) =
               Fin (real_of_int (1111 * 1111 + 50 * 50 - RPAD_FFT_distance s * RPAD_FFT_distance s)
                    / real_of_int (2 * 1111 * 50))))
   \<and> (LPAD_FFT_distance s \<noteq> FFT_NO_SIGNAL \<and> RPAD_FFT_distance s = FFT_NO_SIGNAL \<longrightarrow>
        position_stage s =
          (if acos_range_check (cos_alpha_of (LPAD_FFT_distance s) FFT_NO_SIGNAL)
                (cos_beta_of (LPAD_FFT_distance s) FFT_NO_SIGNAL)
           then triangulate (d_acos (cos_alpha_of (LPAD_FFT_distance s) FFT_NO_SIGNAL))
                  (d_acos (cos_beta_of (LPAD_FFT_distance s) FFT_NO_SIGNAL)) s
           else s)
        \<and> cos_alpha_of (LPAD_FFT_distance s) FFT_NO_SIGNAL =
            Fin (real_of_int
                   (i32 (i32 (1111 * 1111 - i32 (LPAD_FFT_distance s * LPAD_FFT_distance s))
                         + 50 * 50))
                 / real_of_int (2 * 1111 * 50))
        \<and> (\<bar>LPAD_FFT_distance s\<bar> \<le> 46340 \<longrightarrow>
             cos_alpha_of (LPAD_FFT_distance s) FFT_NO_SIGNAL =
               Fin (real_of_int (1111 * 1111 - LPAD_FFT_distance s * LPAD_FFT_distance s + 50 * 50)
                    / real_of_int (2 * 1111 * 50))))"
proof -
  have 1: "(path_of s = Skipped) =
      (LPAD_FFT_distance s = FFT_NO_SIGNAL \<and> RPAD_FFT_distance s = FFT_NO_SIGNAL)"
    by (simp add: path_of_def pos_path_Skipped)
  have 2: "LPAD_FFT_distance s = FFT_NO_SIGNAL \<and> RPAD_FFT_distance s = FFT_NO_SIGNAL \<longrightarrow>
        position_stage s = s"
    by (simp add: position_stage_def)
  have 3: "LPAD_FFT_distance s = FFT_NO_SIGNAL \<and> RPAD_FFT_distance s \<noteq> FFT_NO_SIGNAL \<longrightarrow>
        position_stage s =
          (if acos_range_check (cos_alpha_of FFT_NO_SIGNAL (RPAD_FFT_distance s))
                (cos_beta_of FFT_NO_SIGNAL (RPAD_FFT_distance s))
           then triangulate (d_acos (cos_alpha_of FFT_NO_SIGNAL (RPAD_FFT_distance s)))
                  (d_acos (cos_beta_of FFT_NO_SIGNAL (RPAD_FFT_distance s))) s
           else s)"
    by (simp add: position_stage_def Let_def)
  have 4: "LPAD_FFT_distance s \<noteq> FFT_NO_SIGNAL \<and> RPAD_FFT_distance s = FFT_NO_SIGNAL \<longrightarrow>
        position_stage s =
          (if acos_range_check (cos_alpha_of (LPAD_FFT_distance s) FFT_NO_SIGNAL)
                (cos_beta_of (LPAD_FFT_distance s) FFT_NO_SIGNAL)
           then triangulate (d_acos (cos_alpha_of (LPAD_FFT_distance s) FFT_NO_SIGNAL))
                  (d_acos (cos_beta_of (LPAD_FFT_distance s) FFT_NO_SIGNAL)) s
           else s)"
    by (simp add: position_stage_def Let_def)
  show ?thesis
    using 1 2 3 4 sentinel_cos_beta [of "RPAD_FFT_distance s"]
      sentinel_cos_alpha [of "LPAD_FFT_distance s"]
    by blast
qed

theorem no_signal_guard_witness:
  "position_stage (startup\<lparr>LPAD_FFT_distance := 1111, RPAD_FFT_distance := 1111\<rparr>)
     = startup\<lparr>LPAD_FFT_distance := 1111, RPAD_FFT_distance := 1111\<rparr>
   \<and> path_of (startup\<lparr>LPAD_FFT_distance := 1111, RPAD_FFT_distance := 1111\<rparr>) = Skipped
   \<and> path_of (startup\<lparr>LPAD_FFT_distance := 1111, RPAD_FFT_distance := 30\<rparr>) = Domain_fail
   \<and> path_of (startup\<lparr>LPAD_FFT_distance := 30, RPAD_FFT_distance := 1111\<rparr>) = Domain_fail
   \<and> path_of (startup\<lparr>LPAD_FFT_distance := 1111, RPAD_FFT_distance := 1100\<rparr>) = Case2
   \<and> position_stage (startup\<lparr>LPAD_FFT_distance := 1111, RPAD_FFT_distance := 1100\<rparr>)
       = triangulate (arccos (- 21821 / 110000)) (arccos (26821 / 111100))
           (startup\<lparr>LPAD_FFT_distance := 1111, RPAD_FFT_distance := 1100\<rparr>)"
proof -
  let ?s = "startup\<lparr>LPAD_FFT_distance := 1111, RPAD_FFT_distance := 1111\<rparr>"
  let ?t = "startup\<lparr>LPAD_FFT_distance := 1111, RPAD_FFT_distance := 1100\<rparr>"
  have 1: "position_stage ?s = ?s \<and> path_of ?s = Skipped"
    using no_signal_guard [of ?s] by simp
  have 2: "position_stage ?t = triangulate (arccos (- 21821 / 110000)) (arccos (26821 / 111100)) ?t"
    using no_signal_guard [of ?t]
    by (simp add: cos_defs acos_range_check_def)
  have 3: "path_of (startup\<lparr>LPAD_FFT_distance := 1111, RPAD_FFT_distance := 30\<rparr>) = Domain_fail"
    "path_of (startup\<lparr>LPAD_FFT_distance := 30, RPAD_FFT_distance := 1111\<rparr>) = Domain_fail"
    by (simp_all add: path_of_def pos_path_Domain_fail cos_defs
        acos_range_check_def)
  have 4: "path_of ?t = Case2"
    using sentinel_triangulated by (simp add: path_of_def)
  show ?thesis using 1 2 3 4 by blast
qed

text \<open>
  Claim C9. With one window size W of 1, 2 or 3, a fill counter between 0 and W - 1 stays
  there through every call of calculate\_pos and of averaging\_FFT\_semples; from startup,
  every sequence of calls with this W returns, so that no array access is out of range, and
  ends with the counter between 0 and W - 1, below the capacity of 3.
\<close>

theorem avg_counter_bounded:
  assumes "W \<in> {1, 2, 3}"
  shows "(0 \<le> avg_counter s \<and> avg_counter s \<le> W - 1 \<longrightarrow>
           (\<exists>s'. calculate_pos T W ready t s = Some s'
              \<and> 0 \<le> avg_counter s' \<and> avg_counter s' \<le> W - 1))
     \<and> (num_of_samples s = W \<and> 0 \<le> avg_counter s \<and> avg_counter s \<le> W - 1 \<longrightarrow>
           (\<exists>s'. averaging_FFT_semples T s = Some s'
              \<and> 0 \<le> avg_counter s' \<and> avg_counter s' \<le> W - 1))
     \<and> (\<exists>s'. run T W cs startup = Some s'
           \<and> 0 \<le> avg_counter s' \<and> avg_counter s' \<le> W - 1 \<and> avg_counter s' < FFT_AVG_NUMS)"
proof -
  have 0: "0 \<le> avg_counter startup" "avg_counter startup \<le> W - 1"
    using assms by (auto simp add: startup_def)
  obtain s' where "run T W cs startup = Some s'" "0 \<le> avg_counter s'" "avg_counter s' \<le> W - 1"
    using run_counter [OF assms 0] by blast
  moreover from this assms have "avg_counter s' < FFT_AVG_NUMS" by auto
  ultimately show ?thesis
    using calculate_pos_counter_step [OF assms, of s T ready t]
      averaging_counter_step [OF assms, of s T] by blast
qed

theorem avg_counter_bounded_witness:
  "map_option avg_counter
     (run sample_tables 3
        [(True, (0, 0, 0, 0)), (False, (0, 0, 0, 0)), (True, (0, 0, 0, 0)),
         (True, (0, 0, 0, 0)), (True, (0, 0, 0, 0))] startup) = Some 1"
proof -
  let ?cs = "[(True, (0, 0, 0, 0)), (False, (0, 0, 0, 0)), (True, (0, 0, 0, 0)),
         (True, (0, 0, 0, 0)), (True, (0, 0, 0, 0))] :: (bool \<times> tones) list"
  have h: "(3::int) \<in> {1, 2, 3}" by simp
  obtain s' where s': "run sample_tables 3 ?cs startup = Some s'"
    using avg_counter_bounded [OF h, of startup sample_tables True "(0, 0, 0, 0)" ?cs] by blast
  have "run sample_tables 3 ?cs startup \<noteq> None \<longrightarrow>
      map_option avg_counter (run sample_tables 3 ?cs startup) = Some 1"
    by (simp add: calculate_pos_unfilled calculate_pos_filled calculate_pos_not_ready
        store_tones_def begin_cycle_def average_slots_def distance_LUT_def startup_def)
  with s' show ?thesis by simp
qed

text \<open>
  Claim C10. In a cycle that ends with a calibrated distance of 0 on a pad, the quotient of
  the law of cosines with that distance in the denominator is not finite, the range check
  fails, no case of the triangulation runs, and X\_Pos, Y\_Pos and Gamma hold their error
  codes. The calibration gives 0 for a magnitude above Max (lemma
  \<open>pad_distance_above\<close>).
\<close>

theorem saturated_pad_no_position:
  assumes "calculate_pos T W True t s = Some s'"
    and "LPAD_FFT_distance s' = 0 \<or> RPAD_FFT_distance s' = 0"
  shows "path_of s' = Domain_fail
    \<and> (LPAD_FFT_distance s' = 0 \<longrightarrow>
          \<not> is_finite (cos_beta_of (LPAD_FFT_distance s') (RPAD_FFT_distance s')))
    \<and> (RPAD_FFT_distance s' = 0 \<longrightarrow>
          \<not> is_finite (cos_alpha_of (LPAD_FFT_distance s') (RPAD_FFT_distance s')))
    \<and> \<not> acos_range_check (cos_alpha_of (LPAD_FFT_distance s') (RPAD_FFT_distance s'))
          (cos_beta_of (LPAD_FFT_distance s') (RPAD_FFT_distance s'))
    \<and> X_Pos s' = CALC_OUTOF_X_RANGE \<and> Y_Pos s' = CALC_OUTOF_Y_RANGE
    \<and> Gamma s' = real_of_int CALC_OUTOF_ANGLE_RANGE"
proof -
  let ?L = "LPAD_FFT_distance s'" and ?R = "RPAD_FFT_distance s'"
  have nc: "\<not> acos_range_check (cos_alpha_of ?L ?R) (cos_beta_of ?L ?R)"
    using assms(2) range_check_finite [of "cos_alpha_of ?L ?R" "cos_beta_of ?L ?R"]
      cos_alpha_nonfinite [of ?L] cos_beta_nonfinite [of ?R] by auto
  have "?L \<noteq> FFT_NO_SIGNAL \<or> ?R \<noteq> FFT_NO_SIGNAL" using assms(2) by auto
  with nc have p: "path_of s' = Domain_fail" by (simp add: path_of_def pos_path_Domain_fail)
  from failed_solve_keeps_current [OF assms(1)] p
  have e: "X_Pos s' = CALC_OUTOF_X_RANGE \<and> Y_Pos s' = CALC_OUTOF_Y_RANGE
    \<and> Gamma s' = real_of_int CALC_OUTOF_ANGLE_RANGE" by (simp add: estimate_def)
  show ?thesis using p nc e cos_beta_nonfinite [of ?R] cos_alpha_nonfinite [of ?L] by auto
qed

theorem saturated_pad_no_position_witness:
  "map_option RPAD_FFT_distance
      (calculate_pos sample_tables 1 True (1200, 2000, 100, 50) published_state) = Some 0
   \<and> map_option path_of
      (calculate_pos sample_tables 1 True (1200, 2000, 100, 50) published_state) = Some Domain_fail
   \<and> map_option estimate
      (calculate_pos sample_tables 1 True (1200, 2000, 100, 50) published_state)
        = Some (2333, 2222, 2444)"
proof -
  let ?s' = "position_stage (distance_LUT sample_tables
      (average_slots (store_tones (1200, 2000, 100, 50) (begin_cycle 1 published_state))))"
  have e: "calculate_pos sample_tables 1 True (1200, 2000, 100, 50) published_state = Some ?s'"
    by (simp add: calculate_pos_filled published_state_def)
  have d: "RPAD_FFT_distance ?s' = 0"
    by (simp add: distance_LUT_def average_slots_def store_tones_def begin_cycle_def
        published_state_def pad_distance_def c_div_def)
  then have "LPAD_FFT_distance ?s' = 0 \<or> RPAD_FFT_distance ?s' = 0" by (rule disjI2)
  from saturated_pad_no_position [OF e this] d show ?thesis
    by (simp only: e option.map estimate_def) simp
qed

end
